theory Spec2Isabelle
  imports Main "HOL-Library.Word" "HOL-Library.Sublist" "HOL-Library.Multiset" "HOL-Library.AList"
begin

section \<open>Data model (pkg/types/types.go)\<close>

text \<open>
  Go's \<open>int32\<close> is a 32-bit word read in two's complement (\<open>sint\<close>, \<open><s\<close>, \<open>\<le>s\<close>);
  \<open>string\<close> is a byte sequence; \<open>time.Time\<close> is an instant, modelled by the integer
  number of nanoseconds it denotes; a nil-able pointer is an \<open>option\<close>; a slice is a list
  (the nil slice and the empty slice are both \<open>[]\<close>).
\<close>

type_synonym int32 = "32 word"
type_synonym Time = int

record EventInfo =
  ev_Type :: string
  ev_Reason :: string
  ev_Message :: string
  ev_Count :: int32
  ev_FirstTimestamp :: Time
  ev_LastTimestamp :: Time
  ev_Source :: string
  ev_ObjectKind :: string
  ev_ObjectName :: string

record PodStatus =
  ps_Name :: string
  ps_Phase :: string
  ps_Ready :: bool
  ps_RestartCount :: int32
  ps_Reason :: string
  ps_Message :: string
  ps_NodeName :: string
  ps_ContainerState :: string
  ps_Conditions :: "string list"

record PodGroupStatus =
  pg_Name :: string
  pg_Kind :: string
  pg_Desired :: int32
  pg_Ready :: int32
  pg_Available :: int32
  pg_Unavailable :: int32
  pg_Healthy :: bool
  pg_Pods :: "PodStatus list"
  pg_FailingPods :: "PodStatus list"

record PVCDiagnostic =
  pvc_Name :: string
  pvc_Phase :: string
  pvc_VolumeName :: string
  pvc_StorageClass :: string
  pvc_Capacity :: string

record PVDiagnostic =
  pv_Name :: string
  pv_Phase :: string
  pv_StorageClass :: string
  pv_Capacity :: string
  pv_ReclaimPolicy :: string

record DiagnosticResources =
  Master :: "PodGroupStatus option"
  Workers :: "PodGroupStatus option"
  Fuse :: "PodGroupStatus option"
  PVC :: "PVCDiagnostic option"
  PV :: "PVDiagnostic option"

record LogEntry =
  le_PodName :: string
  le_ContainerName :: string
  le_Logs :: string
  le_TailLines :: int
  le_Truncated :: bool
  le_Error :: string

record DiagnosticLogs =
  lg_Master :: "LogEntry option"
  lg_Workers :: "LogEntry list"
  lg_Fuse :: "LogEntry list"

record FailureHint =
  Severity :: string
  Component :: string
  Issue :: string
  Suggestion :: string
  Evidence :: string

type_synonym HealthStatus = string

definition HealthStatusHealthy :: HealthStatus where
  "HealthStatusHealthy = ''Healthy''"

definition HealthStatusDegraded :: HealthStatus where
  "HealthStatusDegraded = ''Degraded''"

definition HealthStatusUnhealthy :: HealthStatus where
  "HealthStatusUnhealthy = ''Unhealthy''"

definition HealthStatusUnknown :: HealthStatus where
  "HealthStatusUnknown = ''Unknown''"

record DiagnosticResult =
  CollectedAt :: Time
  DatasetName :: string
  Namespace :: string
  DatasetYAML :: string
  RuntimeYAML :: string
  RuntimeType :: string
  Events :: "EventInfo list"
  Resources :: DiagnosticResources
  Logs :: DiagnosticLogs
  FailureHints :: "FailureHint list"
  HealthStatus :: HealthStatus

section \<open>The Go standard library as used by the program\<close>

text \<open>
  \<open>strings.Split\<close> and \<open>strings.SplitN\<close> are only ever called with a one-byte
  separator (\<open>"\n"\<close> and \<open>":"\<close>), so the separator is a \<open>char\<close>.
  \<open>Split\<close> of the empty string is the one-element list holding the empty string.
\<close>

fun Split :: "string \<Rightarrow> char \<Rightarrow> string list" where
  "Split [] sep = [[]]"
| "Split (c # cs) sep =
     (if c = sep then [] # Split cs sep
      else (case Split cs sep of
              [] \<Rightarrow> [[c]]
            | l # ls \<Rightarrow> (c # l) # ls))"

text \<open>\<open>strings.SplitN(s, sep, 2)\<close>: cut at the first separator, if there is one.\<close>

fun SplitN2 :: "string \<Rightarrow> char \<Rightarrow> string list" where
  "SplitN2 [] sep = [[]]"
| "SplitN2 (c # cs) sep =
     (if c = sep then [[], cs]
      else (case SplitN2 cs sep of
              [] \<Rightarrow> [[c]]
            | l # ls \<Rightarrow> (c # l) # ls))"

fun Join :: "string list \<Rightarrow> string \<Rightarrow> string" where
  "Join [] sep = []"
| "Join [l] sep = l"
| "Join (l # ls) sep = l @ sep @ Join ls sep"

text \<open>\<open>strings.Contains(s, substr)\<close>: \<open>substr\<close> occurs in \<open>s\<close> at some offset.\<close>

fun Contains :: "string \<Rightarrow> string \<Rightarrow> bool" where
  "Contains [] substr = (substr = [])"
| "Contains (c # cs) substr = (prefix substr (c # cs) \<or> Contains cs substr)"

text \<open>
  \<open>fmt.Sprintf("%d", n)\<close>: the decimal digits of a number, with a minus sign for a
  negative one. \<open>int32\<close> arguments are read in two's complement.
\<close>

definition digit :: "nat \<Rightarrow> char" where
  "digit d = ''0123456789'' ! d"

fun showNat :: "nat \<Rightarrow> string" where
  "showNat n = (if n < 10 then [digit n] else showNat (n div 10) @ [digit (n mod 10)])"

declare showNat.simps [simp del]

definition showInt :: "int \<Rightarrow> string" where
  "showInt i = (if i < 0 then CHR ''-'' # showNat (nat (- i)) else showNat (nat i))"

definition showInt32 :: "int32 \<Rightarrow> string" where
  "showInt32 w = showInt (sint w)"

text \<open>
  The remaining library functions are parameters of the model: \<open>strings.ToLower\<close> and
  \<open>strings.TrimSpace\<close> (both follow the Unicode tables), and \<open>yaml.Marshal\<close> of
  \<open>sigs.k8s.io/yaml\<close>, which returns the text or an error.
\<close>

datatype jvalue =
    JNull
  | JBool bool
  | JNum int
  | JStr string
  | JArr "jvalue list"
  | JObj "(string \<times> jvalue) list"

text \<open>\<open>unstructured.Unstructured\<close>: the top-level \<open>map[string]interface{}\<close>.\<close>

type_synonym Unstructured = "(string \<times> jvalue) list"

record GoLib =
  ToLower :: "string \<Rightarrow> string"
  TrimSpace :: "string \<Rightarrow> string"
  yamlMarshal :: "Unstructured \<Rightarrow> string + string"

text \<open>
  \<open>sort.Slice(xs, less)\<close> orders the slice by \<open>less\<close>; it is modelled by insertion sort,
  the algorithm the library runs on short slices.
\<close>

fun insertLess :: "('a \<Rightarrow> 'a \<Rightarrow> bool) \<Rightarrow> 'a \<Rightarrow> 'a list \<Rightarrow> 'a list" where
  "insertLess lt x [] = [x]"
| "insertLess lt x (y # ys) =
     (if lt x y then x # y # ys else y # insertLess lt x ys)"

definition sortSlice :: "('a \<Rightarrow> 'a \<Rightarrow> bool) \<Rightarrow> 'a list \<Rightarrow> 'a list" where
  "sortSlice lt xs = foldl (\<lambda>placed x. insertLess lt x placed) [] xs"

text \<open>\<open>t.After(u)\<close> on instants.\<close>

definition After :: "Time \<Rightarrow> Time \<Rightarrow> bool" where
  "After t u = (u < t)"

section \<open>Kubernetes API objects (the fields the program reads)\<close>

record StatefulSet =
  sts_Name :: string
  sts_Spec_Replicas :: "int32 option"
  sts_Status_ReadyReplicas :: int32
  sts_Status_AvailableReplicas :: int32

record DaemonSet =
  ds_Name :: string
  ds_Status_DesiredNumberScheduled :: int32
  ds_Status_NumberReady :: int32
  ds_Status_NumberAvailable :: int32
  ds_Status_NumberUnavailable :: int32

text \<open>
  A \<open>corev1.ResourceList\<close> maps a resource name to a quantity; a quantity is
  represented by the text its \<open>String()\<close> method returns. A nil map is \<open>None\<close>.
\<close>

type_synonym ResourceList = "(string \<times> string) list option"

record PersistentVolumeClaim =
  kpvc_Name :: string
  kpvc_Spec_StorageClassName :: "string option"
  kpvc_Spec_VolumeName :: string
  kpvc_Status_Phase :: string
  kpvc_Status_Capacity :: ResourceList

record PersistentVolume =
  kpv_Name :: string
  kpv_Spec_Capacity :: ResourceList
  kpv_Spec_StorageClassName :: string
  kpv_Spec_PersistentVolumeReclaimPolicy :: string
  kpv_Status_Phase :: string

text \<open>
  \<open>ContainerState\<close>: three nil-able pointers; \<open>Waiting\<close> and \<open>Terminated\<close> carry
  \<open>(Reason, Message)\<close>.
\<close>

record ContainerStatus =
  cs_RestartCount :: int32
  cs_State_Waiting :: "(string \<times> string) option"
  cs_State_Terminated :: "(string \<times> string) option"
  cs_State_Running :: "unit option"

record PodCondition =
  pc_Type :: string
  pc_Status :: string
  pc_Reason :: string
  pc_Message :: string

record Pod =
  pod_Name :: string
  pod_Spec_NodeName :: string
  pod_Status_Phase :: string
  pod_Status_ContainerStatuses :: "ContainerStatus list"
  pod_Status_Conditions :: "PodCondition list"

record Event =
  kev_Type :: string
  kev_Reason :: string
  kev_Message :: string
  kev_Count :: int32
  kev_FirstTimestamp :: Time
  kev_LastTimestamp :: Time
  kev_Source_Component :: string
  kev_InvolvedObject_Kind :: string
  kev_InvolvedObject_Name :: string

text \<open>
  An error of the API machinery: \<open>errors.IsNotFound\<close> tells the two kinds apart,
  \<open>Error()\<close> is the message.
\<close>

datatype APIError = NotFoundError string | OtherError string

fun IsNotFound :: "APIError \<Rightarrow> bool" where
  "IsNotFound (NotFoundError m) = True"
| "IsNotFound (OtherError m) = False"

fun ErrorText :: "APIError \<Rightarrow> string" where
  "ErrorText (NotFoundError m) = m"
| "ErrorText (OtherError m) = m"

text \<open>
  A log request either fails to open the stream, fails while the stream is read, or
  delivers the text.
\<close>

datatype LogStream = StreamError string | ReadError string | LogText string

text \<open>
  The cluster behind \<open>k8s.Client\<close> (\<open>clientset\<close> and \<open>dynamicClient\<close>): what each
  request answers. One run sees one snapshot of the cluster, so an answer depends on
  the request only.
\<close>

record Client =
  dynamicGet :: "string \<Rightarrow> string \<Rightarrow> string \<Rightarrow> APIError + Unstructured"
  StatefulSetsGet :: "string \<Rightarrow> string \<Rightarrow> APIError + StatefulSet"
  DaemonSetsGet :: "string \<Rightarrow> string \<Rightarrow> APIError + DaemonSet"
  PersistentVolumeClaimsGet :: "string \<Rightarrow> string \<Rightarrow> APIError + PersistentVolumeClaim"
  PersistentVolumesGet :: "string \<Rightarrow> APIError + PersistentVolume"
  EventsList :: "string \<Rightarrow> string \<Rightarrow> APIError + Event list"
  PodsList :: "string \<Rightarrow> string \<Rightarrow> APIError + Pod list"
  PodsGetLogs :: "string \<Rightarrow> string \<Rightarrow> string \<Rightarrow> int \<Rightarrow> LogStream"

section \<open>The client (pkg/k8s/client.go, pkg/k8s/events_logs.go)\<close>

text \<open>
  A Go \<open>error\<close> that only its message is read from is a \<open>string option\<close>: \<open>None\<close> is
  \<open>nil\<close>. \<open>fmt.Errorf("...: %w", err)\<close> puts the message of \<open>err\<close> after the prefix.
  A function returning \<open>(value, error)\<close> returns the pair.
\<close>

type_synonym error = "string option"

text \<open>
  \<open>GetDataset\<close> returns either \<open>(nil, err)\<close> or \<open>(dataset, nil)\<close>: a sum, the error
  on the left.
\<close>

definition GetDataset :: "Client \<Rightarrow> string \<Rightarrow> string \<Rightarrow> string + Unstructured" where
  "GetDataset c namespace name =
     (case dynamicGet c ''datasets'' namespace name of
        Inl err \<Rightarrow>
          if IsNotFound err
          then Inl (''dataset '' @ namespace @ ''/'' @ name @ '' not found'')
          else Inl (''failed to get dataset: '' @ ErrorText err)
      | Inr dataset \<Rightarrow> Inr dataset)"

definition runtimeTypes :: "string list" where
  "runtimeTypes =
     [''alluxioruntimes'', ''jindoruntimes'', ''juicefsruntimes'', ''efcruntimes'',
      ''thinruntimes'', ''vineyardruntimes'', ''goosefsruntimes'']"

text \<open>
  The probing loop of \<open>TryFindRuntime\<close> over the kinds still to try. Both branches of
  the \<open>IsNotFound\<close> test \<open>continue\<close>.
\<close>

fun probeRuntimes ::
  "Client \<Rightarrow> string \<Rightarrow> string \<Rightarrow> string list \<Rightarrow> Unstructured option \<times> string \<times> error" where
  "probeRuntimes c namespace name [] = (None, [], None)"
| "probeRuntimes c namespace name (resourceName # rest) =
     (case dynamicGet c resourceName namespace name of
        Inl err \<Rightarrow>
          if IsNotFound err then probeRuntimes c namespace name rest
          else probeRuntimes c namespace name rest
      | Inr runtime \<Rightarrow> (Some runtime, resourceName, None))"

definition TryFindRuntime ::
  "Client \<Rightarrow> string \<Rightarrow> string \<Rightarrow> Unstructured option \<times> string \<times> error" where
  "TryFindRuntime c namespace name = probeRuntimes c namespace name runtimeTypes"

definition GetStatefulSet :: "Client \<Rightarrow> string \<Rightarrow> string \<Rightarrow> StatefulSet option \<times> error" where
  "GetStatefulSet c namespace name =
     (case StatefulSetsGet c namespace name of
        Inl err \<Rightarrow>
          if IsNotFound err then (None, None)
          else (None, Some (''failed to get statefulset: '' @ ErrorText err))
      | Inr sts \<Rightarrow> (Some sts, None))"

definition GetDaemonSet :: "Client \<Rightarrow> string \<Rightarrow> string \<Rightarrow> DaemonSet option \<times> error" where
  "GetDaemonSet c namespace name =
     (case DaemonSetsGet c namespace name of
        Inl err \<Rightarrow>
          if IsNotFound err then (None, None)
          else (None, Some (''failed to get daemonset: '' @ ErrorText err))
      | Inr ds \<Rightarrow> (Some ds, None))"

definition GetPVC ::
  "Client \<Rightarrow> string \<Rightarrow> string \<Rightarrow> PersistentVolumeClaim option \<times> error" where
  "GetPVC c namespace name =
     (case PersistentVolumeClaimsGet c namespace name of
        Inl err \<Rightarrow>
          if IsNotFound err then (None, None)
          else (None, Some (''failed to get pvc: '' @ ErrorText err))
      | Inr pvc \<Rightarrow> (Some pvc, None))"

text \<open>
  \<open>GetPV\<close> and \<open>GetPodsByLabel\<close> hand on what the typed client returns; on an error
  that is the error together with a pointer to a zero object.
\<close>

definition zeroPersistentVolume :: PersistentVolume where
  "zeroPersistentVolume =
     \<lparr>kpv_Name = [], kpv_Spec_Capacity = None, kpv_Spec_StorageClassName = [],
      kpv_Spec_PersistentVolumeReclaimPolicy = [], kpv_Status_Phase = []\<rparr>"

definition GetPV :: "Client \<Rightarrow> string \<Rightarrow> PersistentVolume option \<times> error" where
  "GetPV c name =
     (case PersistentVolumesGet c name of
        Inl err \<Rightarrow> (Some zeroPersistentVolume, Some (ErrorText err))
      | Inr pv \<Rightarrow> (Some pv, None))"

definition GetPodsByLabel :: "Client \<Rightarrow> string \<Rightarrow> string \<Rightarrow> Pod list \<times> error" where
  "GetPodsByLabel c namespace labelSelector =
     (case PodsList c namespace labelSelector of
        Inl err \<Rightarrow> ([], Some (ErrorText err))
      | Inr items \<Rightarrow> (items, None))"

definition toEventInfo :: "Event \<Rightarrow> EventInfo" where
  "toEventInfo e =
     \<lparr>ev_Type = kev_Type e, ev_Reason = kev_Reason e, ev_Message = kev_Message e,
      ev_Count = kev_Count e, ev_FirstTimestamp = kev_FirstTimestamp e,
      ev_LastTimestamp = kev_LastTimestamp e, ev_Source = kev_Source_Component e,
      ev_ObjectKind = kev_InvolvedObject_Kind e, ev_ObjectName = kev_InvolvedObject_Name e\<rparr>"

text \<open>The comparison both sorts pass to \<open>sort.Slice\<close>.\<close>

definition lastAfter :: "EventInfo \<Rightarrow> EventInfo \<Rightarrow> bool" where
  "lastAfter a b = After (ev_LastTimestamp a) (ev_LastTimestamp b)"

definition GetEventsForObject ::
  "Client \<Rightarrow> string \<Rightarrow> string \<Rightarrow> string \<Rightarrow> EventInfo list \<times> error" where
  "GetEventsForObject c namespace name uid =
     (case EventsList c namespace (''involvedObject.name='' @ name) of
        Inl err \<Rightarrow> ([], Some (''failed to list events: '' @ ErrorText err))
      | Inr items \<Rightarrow> (sortSlice lastAfter (map toEventInfo items), None))"

text \<open>
  \<open>GetAllRelatedEvents\<close> appends, in turn, the events of the dataset, of the three
  conventionally named resources and of every pod with the release label; the errors
  of the single lookups are dropped.
\<close>

fun appendEventsFor ::
  "Client \<Rightarrow> string \<Rightarrow> EventInfo list \<Rightarrow> string list \<Rightarrow> EventInfo list" where
  "appendEventsFor c namespace allEvents [] = allEvents"
| "appendEventsFor c namespace allEvents (name # names) =
     appendEventsFor c namespace
       (allEvents @ fst (GetEventsForObject c namespace name [])) names"

definition GetAllRelatedEvents ::
  "Client \<Rightarrow> string \<Rightarrow> string \<Rightarrow> EventInfo list \<times> error" where
  "GetAllRelatedEvents c namespace datasetName =
     (let allEvents = [];
          datasetEvents = fst (GetEventsForObject c namespace datasetName []);
          allEvents = allEvents @ datasetEvents;
          resourceNames =
            [datasetName @ ''-master'', datasetName @ ''-worker'', datasetName @ ''-fuse''];
          allEvents = appendEventsFor c namespace allEvents resourceNames;
          allEvents =
            (case PodsList c namespace (''release='' @ datasetName) of
               Inl err \<Rightarrow> allEvents
             | Inr items \<Rightarrow> appendEventsFor c namespace allEvents (map pod_Name items))
      in (sortSlice lastAfter allEvents, None))"

definition GetPodLogs ::
  "Client \<Rightarrow> string \<Rightarrow> string \<Rightarrow> string \<Rightarrow> int \<Rightarrow> string \<times> error" where
  "GetPodLogs c namespace podName containerName tailLines =
     (case PodsGetLogs c namespace podName containerName tailLines of
        StreamError m \<Rightarrow> ([], Some (''failed to get log stream: '' @ m))
      | ReadError m \<Rightarrow> ([], Some (''failed to read logs: '' @ m))
      | LogText logs \<Rightarrow> (logs, None))"

section \<open>Helper functions of the diagnoser (pkg/diagnose/diagnoser.go)\<close>

definition defaultTailLines :: int where
  "defaultTailLines = 100"

definition maxLogsPerGroup :: nat where
  "maxLogsPerGroup = 2"

record DatasetDiagnoser =
  client :: Client
  tailLines :: int

definition NewDatasetDiagnoser :: "Client \<Rightarrow> DatasetDiagnoser" where
  "NewDatasetDiagnoser c = \<lparr>client = c, tailLines = defaultTailLines\<rparr>"

text \<open>
  \<open>cleanCRForDiagnosis\<close>: on the copy, when \<open>metadata\<close> is a map, five keys are
  deleted from it.
\<close>

definition cleanCRForDiagnosis :: "Unstructured \<Rightarrow> Unstructured" where
  "cleanCRForDiagnosis obj =
     (let cleaned = obj in
      case map_of cleaned ''metadata'' of
        Some (JObj metadata) \<Rightarrow>
          (let metadata = AList.delete ''managedFields'' metadata;
               metadata = AList.delete ''resourceVersion'' metadata;
               metadata = AList.delete ''uid'' metadata;
               metadata = AList.delete ''generation'' metadata;
               metadata = AList.delete ''creationTimestamp'' metadata
           in AList.update ''metadata'' (JObj metadata) cleaned)
      | _ \<Rightarrow> cleaned)"

text \<open>
  \<open>extractPhaseFromYAML\<close>: the first line containing \<open>phase:\<close> decides.
  \<open>SplitN(line, ":", 2)\<close> has two parts on such a line; the test is kept.
\<close>

fun phaseOfLines :: "GoLib \<Rightarrow> string list \<Rightarrow> string" where
  "phaseOfLines lib [] = ''Unknown''"
| "phaseOfLines lib (line # lines) =
     (if Contains line ''phase:''
      then (let parts = SplitN2 line CHR '':'' in
            if length parts = 2 then TrimSpace lib (parts ! 1)
            else phaseOfLines lib lines)
      else phaseOfLines lib lines)"

definition extractPhaseFromYAML :: "GoLib \<Rightarrow> string \<Rightarrow> string" where
  "extractPhaseFromYAML lib yamlStr = phaseOfLines lib (Split yamlStr CHR 0x0A)"

definition PodReady :: string where
  "PodReady = ''Ready''"

definition ConditionTrue :: string where
  "ConditionTrue = ''True''"

definition ConditionFalse :: string where
  "ConditionFalse = ''False''"

fun isPodReadyConds :: "PodCondition list \<Rightarrow> bool" where
  "isPodReadyConds [] = False"
| "isPodReadyConds (cond # conds) =
     (if pc_Type cond = PodReady then pc_Status cond = ConditionTrue
      else isPodReadyConds conds)"

definition isPodReady :: "Pod \<Rightarrow> bool" where
  "isPodReady pod = isPodReadyConds (pod_Status_Conditions pod)"

text \<open>\<open>normalizeLogs\<close>: the loop appends one line to \<open>cleaned\<close> per line of the input.\<close>

definition looksSecret :: "string \<Rightarrow> bool" where
  "looksSecret lower =
     (Contains lower ''password'' \<or> Contains lower ''secret'' \<or> Contains lower ''token'' \<or>
      Contains lower ''api_key'' \<or> Contains lower ''apikey'')"

fun cleanLines :: "GoLib \<Rightarrow> string list \<Rightarrow> string list \<Rightarrow> string list" where
  "cleanLines lib cleaned [] = cleaned"
| "cleanLines lib cleaned (line # lines) =
     (let lower = ToLower lib line in
      if looksSecret lower then cleanLines lib (cleaned @ [''[REDACTED]'']) lines
      else cleanLines lib (cleaned @ [line]) lines)"

definition normalizeLogs :: "GoLib \<Rightarrow> string \<Rightarrow> string" where
  "normalizeLogs lib logs =
     (let lines = Split logs CHR 0x0A;
          cleaned = cleanLines lib [] lines
      in Join cleaned [CHR 0x0A])"

section \<open>Collection stages (pkg/diagnose/diagnoser.go)\<close>

text \<open>
  A stage receives the result through a pointer and returns an error: in the model it
  takes the result and returns the error with the updated result.
\<close>

definition collectCRSnapshots ::
  "GoLib \<Rightarrow> DatasetDiagnoser \<Rightarrow> string \<Rightarrow> string \<Rightarrow> DiagnosticResult \<Rightarrow>
   error \<times> DiagnosticResult" where
  "collectCRSnapshots lib d namespace name result =
     (case GetDataset (client d) namespace name of
        Inl err \<Rightarrow> (Some (''failed to get dataset: '' @ err), result)
      | Inr dataset \<Rightarrow>
          (case yamlMarshal lib (cleanCRForDiagnosis dataset) of
             Inl err \<Rightarrow> (Some (''failed to marshal dataset: '' @ err), result)
           | Inr datasetYAML \<Rightarrow>
               (let result = result\<lparr>DatasetYAML := datasetYAML\<rparr> in
                case TryFindRuntime (client d) namespace name of
                  (_, _, Some err) \<Rightarrow> (Some (''failed to find runtime: '' @ err), result)
                | (None, _, None) \<Rightarrow> (None, result)
                | (Some runtime, runtimeType, None) \<Rightarrow>
                    (let result = result\<lparr>RuntimeType := runtimeType\<rparr> in
                     case yamlMarshal lib (cleanCRForDiagnosis runtime) of
                       Inl err \<Rightarrow> (Some (''failed to marshal runtime: '' @ err), result)
                     | Inr runtimeYAML \<Rightarrow> (None, result\<lparr>RuntimeYAML := runtimeYAML\<rparr>)))))"

definition collectEvents ::
  "DatasetDiagnoser \<Rightarrow> string \<Rightarrow> string \<Rightarrow> DiagnosticResult \<Rightarrow> error \<times> DiagnosticResult" where
  "collectEvents d namespace name result =
     (case GetAllRelatedEvents (client d) namespace name of
        (_, Some err) \<Rightarrow> (Some err, result)
      | (events, None) \<Rightarrow> (None, result\<lparr>Events := events\<rparr>))"

text \<open>\<open>extractPodStatus\<close>, with the loop over the conditions as \<open>collectConditions\<close>.\<close>

fun collectConditions :: "string list \<Rightarrow> PodCondition list \<Rightarrow> string list" where
  "collectConditions acc [] = acc"
| "collectConditions acc (cond # conds) =
     (if pc_Status cond = ConditionFalse \<and> pc_Type cond \<noteq> PodReady
      then collectConditions
             (acc @ [pc_Type cond @ '': '' @ pc_Reason cond @ '' ('' @ pc_Message cond @ '')''])
             conds
      else collectConditions acc conds)"

definition extractPodStatus :: "Pod \<Rightarrow> PodStatus" where
  "extractPodStatus pod =
     (let status = \<lparr>ps_Name = pod_Name pod, ps_Phase = pod_Status_Phase pod, ps_Ready = False,
                    ps_RestartCount = 0, ps_Reason = [], ps_Message = [],
                    ps_NodeName = pod_Spec_NodeName pod, ps_ContainerState = [],
                    ps_Conditions = []\<rparr>;
          status = status\<lparr>ps_Ready := isPodReady pod\<rparr>;
          status =
            (case pod_Status_ContainerStatuses pod of
               [] \<Rightarrow> status
             | cs # _ \<Rightarrow>
                 (let status = status\<lparr>ps_RestartCount := cs_RestartCount cs\<rparr> in
                  case cs_State_Waiting cs of
                    Some (reason, message) \<Rightarrow>
                      status\<lparr>ps_ContainerState := ''Waiting'', ps_Reason := reason,
                             ps_Message := message\<rparr>
                  | None \<Rightarrow>
                      (case cs_State_Terminated cs of
                         Some (reason, message) \<Rightarrow>
                           status\<lparr>ps_ContainerState := ''Terminated'', ps_Reason := reason,
                                  ps_Message := message\<rparr>
                       | None \<Rightarrow>
                           (case cs_State_Running cs of
                              Some _ \<Rightarrow> status\<lparr>ps_ContainerState := ''Running''\<rparr>
                            | None \<Rightarrow> status))))
      in status\<lparr>ps_Conditions := collectConditions (ps_Conditions status) (pod_Status_Conditions pod)\<rparr>)"

text \<open>The loop of \<open>collectPodStatus\<close> over \<open>pods.Items\<close>.\<close>

fun bucketPods :: "PodGroupStatus \<Rightarrow> Pod list \<Rightarrow> PodGroupStatus" where
  "bucketPods grp [] = grp"
| "bucketPods grp (pod # pods) =
     (let status = extractPodStatus pod in
      if ps_Ready status
      then bucketPods (grp\<lparr>pg_Pods := pg_Pods grp @ [status]\<rparr>) pods
      else bucketPods (grp\<lparr>pg_FailingPods := pg_FailingPods grp @ [status]\<rparr>) pods)"

definition collectPodStatus ::
  "DatasetDiagnoser \<Rightarrow> string \<Rightarrow> string \<Rightarrow> string \<Rightarrow> PodGroupStatus \<Rightarrow> PodGroupStatus" where
  "collectPodStatus d namespace datasetName role grp =
     (let labelSelector = ''release='' @ datasetName @ '',role=alluxio-'' @ role in
      case GetPodsByLabel (client d) namespace labelSelector of
        (_, Some err) \<Rightarrow> grp
      | (items, None) \<Rightarrow> bucketPods grp items)"

text \<open>
  \<open>collectResourceStatus\<close> dereferences \<open>Spec.Replicas\<close> of a StatefulSet it found; on
  a nil pointer the program panics, which is the outcome \<open>Panics\<close>. The four blocks of
  the function are the four steps below, run in the source's order.
\<close>

datatype 'a run = Panics | Returns 'a

fun thenRun :: "'a run \<Rightarrow> ('a \<Rightarrow> 'b run) \<Rightarrow> 'b run" where
  "thenRun Panics f = Panics"
| "thenRun (Returns x) f = f x"

definition statefulSetGroup ::
  "DatasetDiagnoser \<Rightarrow> string \<Rightarrow> string \<Rightarrow> string \<Rightarrow> StatefulSet \<Rightarrow> PodGroupStatus run" where
  "statefulSetGroup d namespace name role sts =
     (case sts_Spec_Replicas sts of
        None \<Rightarrow> Panics
      | Some replicas \<Rightarrow>
          Returns (collectPodStatus d namespace name role
            \<lparr>pg_Name = sts_Name sts, pg_Kind = ''StatefulSet'',
             pg_Desired = replicas,
             pg_Ready = sts_Status_ReadyReplicas sts,
             pg_Available = sts_Status_AvailableReplicas sts,
             pg_Unavailable = replicas - sts_Status_ReadyReplicas sts,
             pg_Healthy = (sts_Status_ReadyReplicas sts = replicas),
             pg_Pods = [], pg_FailingPods = []\<rparr>))"

definition collectMasterStatus ::
  "DatasetDiagnoser \<Rightarrow> string \<Rightarrow> string \<Rightarrow> DiagnosticResult \<Rightarrow> DiagnosticResult run" where
  "collectMasterStatus d namespace name result =
     (case fst (GetStatefulSet (client d) namespace (name @ ''-master'')) of
        None \<Rightarrow> Returns result
      | Some masterSts \<Rightarrow>
          thenRun (statefulSetGroup d namespace name ''master'' masterSts)
            (\<lambda>grp. Returns (result\<lparr>Resources := (Resources result)\<lparr>Master := Some grp\<rparr>\<rparr>)))"

definition collectWorkerStatus ::
  "DatasetDiagnoser \<Rightarrow> string \<Rightarrow> string \<Rightarrow> DiagnosticResult \<Rightarrow> DiagnosticResult run" where
  "collectWorkerStatus d namespace name result =
     (case fst (GetStatefulSet (client d) namespace (name @ ''-worker'')) of
        None \<Rightarrow> Returns result
      | Some workerSts \<Rightarrow>
          thenRun (statefulSetGroup d namespace name ''worker'' workerSts)
            (\<lambda>grp. Returns (result\<lparr>Resources := (Resources result)\<lparr>Workers := Some grp\<rparr>\<rparr>)))"

definition daemonSetGroup ::
  "DatasetDiagnoser \<Rightarrow> string \<Rightarrow> string \<Rightarrow> string \<Rightarrow> DaemonSet \<Rightarrow> PodGroupStatus" where
  "daemonSetGroup d namespace name role ds =
     collectPodStatus d namespace name role
       \<lparr>pg_Name = ds_Name ds, pg_Kind = ''DaemonSet'',
        pg_Desired = ds_Status_DesiredNumberScheduled ds,
        pg_Ready = ds_Status_NumberReady ds,
        pg_Available = ds_Status_NumberAvailable ds,
        pg_Unavailable = ds_Status_NumberUnavailable ds,
        pg_Healthy = (ds_Status_NumberReady ds = ds_Status_DesiredNumberScheduled ds),
        pg_Pods = [], pg_FailingPods = []\<rparr>"

definition collectFuseStatus ::
  "DatasetDiagnoser \<Rightarrow> string \<Rightarrow> string \<Rightarrow> DiagnosticResult \<Rightarrow> DiagnosticResult" where
  "collectFuseStatus d namespace name result =
     (case fst (GetDaemonSet (client d) namespace (name @ ''-fuse'')) of
        None \<Rightarrow> result
      | Some fuseDaemonSet \<Rightarrow>
          result\<lparr>Resources := (Resources result)
            \<lparr>Fuse := Some (daemonSetGroup d namespace name ''fuse'' fuseDaemonSet)\<rparr>\<rparr>)"

definition storageOf :: "ResourceList \<Rightarrow> string" where
  "storageOf capacity =
     (case capacity of
        None \<Rightarrow> []
      | Some m \<Rightarrow> (case map_of m ''storage'' of None \<Rightarrow> [] | Some storage \<Rightarrow> storage))"

definition collectPVCStatus ::
  "DatasetDiagnoser \<Rightarrow> string \<Rightarrow> string \<Rightarrow> DiagnosticResult \<Rightarrow> DiagnosticResult" where
  "collectPVCStatus d namespace name result =
     (case fst (GetPVC (client d) namespace name) of
        None \<Rightarrow> result
      | Some pvc \<Rightarrow>
          (let capacity = storageOf (kpvc_Status_Capacity pvc);
               storageClass =
                 (case kpvc_Spec_StorageClassName pvc of None \<Rightarrow> [] | Some sc \<Rightarrow> sc);
               result = result\<lparr>Resources := (Resources result)
                 \<lparr>PVC := Some \<lparr>pvc_Name = kpvc_Name pvc, pvc_Phase = kpvc_Status_Phase pvc,
                               pvc_VolumeName = kpvc_Spec_VolumeName pvc,
                               pvc_StorageClass = storageClass, pvc_Capacity = capacity\<rparr>\<rparr>\<rparr>
           in if kpvc_Spec_VolumeName pvc \<noteq> []
              then (case fst (GetPV (client d) (kpvc_Spec_VolumeName pvc)) of
                      None \<Rightarrow> result
                    | Some pv \<Rightarrow>
                        (let pvCapacity = storageOf (kpv_Spec_Capacity pv) in
                         result\<lparr>Resources := (Resources result)
                           \<lparr>PV := Some \<lparr>pv_Name = kpv_Name pv, pv_Phase = kpv_Status_Phase pv,
                                        pv_StorageClass = kpv_Spec_StorageClassName pv,
                                        pv_Capacity = pvCapacity,
                                        pv_ReclaimPolicy =
                                          kpv_Spec_PersistentVolumeReclaimPolicy pv\<rparr>\<rparr>\<rparr>))
              else result))"

definition collectResourceStatus ::
  "DatasetDiagnoser \<Rightarrow> string \<Rightarrow> string \<Rightarrow> DiagnosticResult \<Rightarrow>
   (error \<times> DiagnosticResult) run" where
  "collectResourceStatus d namespace name result =
     thenRun (collectMasterStatus d namespace name result) (\<lambda>result.
     thenRun (collectWorkerStatus d namespace name result) (\<lambda>result.
     (let result = collectFuseStatus d namespace name result;
          result = collectPVCStatus d namespace name result
      in Returns (None, result))))"

text \<open>\<open>collectLogs\<close>. The four places that build a log entry are kept apart, as written.\<close>

definition zeroLogEntry :: LogEntry where
  "zeroLogEntry =
     \<lparr>le_PodName = [], le_ContainerName = [], le_Logs = [], le_TailLines = 0,
      le_Truncated = False, le_Error = []\<rparr>"

definition collectMasterLogs ::
  "DatasetDiagnoser \<Rightarrow> string \<Rightarrow> DiagnosticResult \<Rightarrow> DiagnosticResult" where
  "collectMasterLogs d namespace result =
     (case Master (Resources result) of
        None \<Rightarrow> result
      | Some master \<Rightarrow>
          (case pg_Pods master of
             [] \<Rightarrow> result
           | pod # _ \<Rightarrow>
               (case GetPodLogs (client d) namespace (ps_Name pod) ''alluxio-master'' (tailLines d) of
                  (_, Some err) \<Rightarrow>
                    result\<lparr>Logs := (Logs result)
                      \<lparr>lg_Master := Some (zeroLogEntry
                         \<lparr>le_PodName := ps_Name pod, le_Error := err,
                          le_TailLines := tailLines d\<rparr>)\<rparr>\<rparr>
                | (logs, None) \<Rightarrow>
                    result\<lparr>Logs := (Logs result)
                      \<lparr>lg_Master := Some (zeroLogEntry
                         \<lparr>le_PodName := ps_Name pod, le_ContainerName := ''alluxio-master'',
                          le_Logs := logs, le_TailLines := tailLines d,
                          le_Truncated := (0 < length logs)\<rparr>)\<rparr>\<rparr>)))"

text \<open>The entry built for a worker or fuse pod.\<close>

definition fetchEntry :: "DatasetDiagnoser \<Rightarrow> string \<Rightarrow> PodStatus \<Rightarrow> string \<Rightarrow> LogEntry" where
  "fetchEntry d namespace pod containerName =
     (let entry = zeroLogEntry\<lparr>le_PodName := ps_Name pod, le_ContainerName := containerName,
                                le_TailLines := tailLines d\<rparr>
      in case GetPodLogs (client d) namespace (ps_Name pod) containerName (tailLines d) of
           (_, Some err) \<Rightarrow> entry\<lparr>le_Error := err\<rparr>
         | (logs, None) \<Rightarrow> entry\<lparr>le_Logs := logs, le_Truncated := (0 < length logs)\<rparr>)"

definition collectWorkerLogs ::
  "DatasetDiagnoser \<Rightarrow> string \<Rightarrow> DiagnosticResult \<Rightarrow> DiagnosticResult" where
  "collectWorkerLogs d namespace result =
     (case Workers (Resources result) of
        None \<Rightarrow> result
      | Some workers \<Rightarrow>
          (let result =
                 (case pg_Pods workers of
                    [] \<Rightarrow> result
                  | pod # _ \<Rightarrow>
                      result\<lparr>Logs := (Logs result)
                        \<lparr>lg_Workers := lg_Workers (Logs result) @
                           [fetchEntry d namespace pod ''alluxio-worker'']\<rparr>\<rparr>);
               result =
                 (case pg_FailingPods workers of
                    [] \<Rightarrow> result
                  | pod # _ \<Rightarrow>
                      result\<lparr>Logs := (Logs result)
                        \<lparr>lg_Workers := lg_Workers (Logs result) @
                           [fetchEntry d namespace pod ''alluxio-worker'']\<rparr>\<rparr>)
           in result))"

text \<open>The loop over the failing fuse pods, with its index \<open>i\<close> and its \<open>break\<close>.\<close>

fun fuseLogsLoop ::
  "DatasetDiagnoser \<Rightarrow> string \<Rightarrow> nat \<Rightarrow> PodStatus list \<Rightarrow> DiagnosticResult \<Rightarrow> DiagnosticResult" where
  "fuseLogsLoop d namespace i [] result = result"
| "fuseLogsLoop d namespace i (pod # pods) result =
     (if maxLogsPerGroup \<le> i then result
      else fuseLogsLoop d namespace (i + 1) pods
             (result\<lparr>Logs := (Logs result)
                \<lparr>lg_Fuse := lg_Fuse (Logs result) @
                   [fetchEntry d namespace pod ''alluxio-fuse'']\<rparr>\<rparr>))"

definition collectFuseLogs ::
  "DatasetDiagnoser \<Rightarrow> string \<Rightarrow> DiagnosticResult \<Rightarrow> DiagnosticResult" where
  "collectFuseLogs d namespace result =
     (case Fuse (Resources result) of
        None \<Rightarrow> result
      | Some fuse \<Rightarrow>
          if 0 < length (pg_FailingPods fuse)
          then fuseLogsLoop d namespace 0 (pg_FailingPods fuse) result
          else result)"

definition collectLogs ::
  "DatasetDiagnoser \<Rightarrow> string \<Rightarrow> string \<Rightarrow> DiagnosticResult \<Rightarrow> error \<times> DiagnosticResult" where
  "collectLogs d namespace name result =
     (let result = collectMasterLogs d namespace result;
          result = collectWorkerLogs d namespace result;
          result = collectFuseLogs d namespace result
      in (None, result))"

section \<open>Analysis (diagnoser.go, analyzeAndGenerateHints)\<close>

text \<open>\<open>result.FailureHints = append(result.FailureHints, hint)\<close>.\<close>

definition appendHint :: "DiagnosticResult \<Rightarrow> FailureHint \<Rightarrow> DiagnosticResult" where
  "appendHint result hint = result\<lparr>FailureHints := FailureHints result @ [hint]\<rparr>"

definition checkDatasetPhase :: "GoLib \<Rightarrow> DiagnosticResult \<Rightarrow> DiagnosticResult" where
  "checkDatasetPhase lib result =
     (let datasetPhase = extractPhaseFromYAML lib (DatasetYAML result) in
      if datasetPhase = ''Pending''
      then appendHint result
             \<lparr>Severity = ''warning'', Component = ''dataset'',
              Issue = ''Dataset is in Pending phase'',
              Suggestion = ''Check if a matching Runtime CR exists and is healthy'',
              Evidence = []\<rparr>
      else if datasetPhase = ''Failed''
      then appendHint result
             \<lparr>Severity = ''critical'', Component = ''dataset'',
              Issue = ''Dataset is in Failed phase'',
              Suggestion = ''Check events and conditions for failure reason'',
              Evidence = []\<rparr>
      else result)"

definition checkMasterStatus :: "DiagnosticResult \<Rightarrow> DiagnosticResult" where
  "checkMasterStatus result =
     (case Master (Resources result) of
        None \<Rightarrow> result
      | Some master \<Rightarrow>
          if \<not> pg_Healthy master
          then appendHint result
                 \<lparr>Severity = ''critical'', Component = ''master'',
                  Issue = ''Master not healthy: '' @ showInt32 (pg_Ready master) @ ''/'' @
                          showInt32 (pg_Desired master) @ '' ready'',
                  Suggestion = ''Check master pod logs and events for errors'',
                  Evidence = []\<rparr>
          else result)"

definition checkWorkerStatus :: "DiagnosticResult \<Rightarrow> DiagnosticResult" where
  "checkWorkerStatus result =
     (case Workers (Resources result) of
        None \<Rightarrow> result
      | Some workers \<Rightarrow>
          if \<not> pg_Healthy workers
          then appendHint result
                 \<lparr>Severity = ''warning'', Component = ''worker'',
                  Issue = ''Workers not healthy: '' @ showInt32 (pg_Ready workers) @ ''/'' @
                          showInt32 (pg_Desired workers) @ '' ready'',
                  Suggestion = ''Check worker pod logs and node resources'',
                  Evidence = []\<rparr>
          else result)"

definition checkFuseStatus :: "DiagnosticResult \<Rightarrow> DiagnosticResult" where
  "checkFuseStatus result =
     (case Fuse (Resources result) of
        None \<Rightarrow> result
      | Some fuse \<Rightarrow>
          if \<not> pg_Healthy fuse
          then appendHint result
                 \<lparr>Severity = ''warning'', Component = ''fuse'',
                  Issue = ''Fuse not healthy: '' @ showInt32 (pg_Ready fuse) @ ''/'' @
                          showInt32 (pg_Desired fuse) @ '' ready'',
                  Suggestion = ''Check fuse pod logs and node selectors/tolerations'',
                  Evidence = []\<rparr>
          else result)"

definition checkPVCStatus :: "DiagnosticResult \<Rightarrow> DiagnosticResult" where
  "checkPVCStatus result =
     (case PVC (Resources result) of
        None \<Rightarrow> result
      | Some pvc \<Rightarrow>
          if pvc_Phase pvc \<noteq> ''Bound''
          then appendHint result
                 \<lparr>Severity = ''critical'', Component = ''pvc'',
                  Issue = ''PVC is not bound: '' @ pvc_Phase pvc,
                  Suggestion = ''Check if the Dataset is bound to a Runtime'',
                  Evidence = []\<rparr>
          else result)"

text \<open>The body of the loop over the events, for one event of type \<open>Warning\<close>.\<close>

definition analyzeWarningEvent :: "DiagnosticResult \<Rightarrow> EventInfo \<Rightarrow> DiagnosticResult" where
  "analyzeWarningEvent result event =
     (let result =
            (if Contains (ev_Message event) ''ImagePullBackOff'' \<or>
                Contains (ev_Message event) ''ErrImagePull''
             then appendHint result
                    \<lparr>Severity = ''critical'', Component = ev_ObjectKind event,
                     Issue = ''Image pull failure detected'',
                     Suggestion = ''Check image name, tag, and registry credentials'',
                     Evidence = ev_Message event\<rparr>
             else result);
          result =
            (if Contains (ev_Message event) ''Insufficient''
             then appendHint result
                    \<lparr>Severity = ''warning'', Component = ev_ObjectKind event,
                     Issue = ''Resource insufficiency detected'',
                     Suggestion = ''Check node resources and pod resource requests'',
                     Evidence = ev_Message event\<rparr>
             else result);
          result =
            (if Contains (ev_Message event) ''FailedMount'' \<or>
                Contains (ev_Message event) ''MountVolume''
             then appendHint result
                    \<lparr>Severity = ''critical'', Component = ev_ObjectKind event,
                     Issue = ''Volume mount failure detected'',
                     Suggestion = ''Check PVC binding and CSI driver status'',
                     Evidence = ev_Message event\<rparr>
             else result)
      in result)"

fun analyzeEvents :: "DiagnosticResult \<Rightarrow> EventInfo list \<Rightarrow> DiagnosticResult" where
  "analyzeEvents result [] = result"
| "analyzeEvents result (event # events) =
     (if ev_Type event = ''Warning''
      then analyzeEvents (analyzeWarningEvent result event) events
      else analyzeEvents result events)"

text \<open>
  The closure \<open>checkRestartCounts\<close>; it appends to the hints of the result.
  \<open>restartIssue\<close> is its \<open>fmt.Sprintf("High restart count (%d) for pod %s", ...)\<close>.
\<close>

definition restartIssue :: "PodStatus \<Rightarrow> string" where
  "restartIssue pod =
     ''High restart count ('' @ showInt32 (ps_RestartCount pod) @ '') for pod '' @ ps_Name pod"

fun checkRestartCounts :: "DiagnosticResult \<Rightarrow> PodStatus list \<Rightarrow> string \<Rightarrow> DiagnosticResult" where
  "checkRestartCounts result [] component = result"
| "checkRestartCounts result (pod # pods) component =
     (if 3 <s ps_RestartCount pod
      then checkRestartCounts
             (appendHint result
                \<lparr>Severity = ''warning'', Component = component,
                 Issue = restartIssue pod,
                 Suggestion = ''Check pod logs for crash reasons'',
                 Evidence = []\<rparr>)
             pods component
      else checkRestartCounts result pods component)"

definition checkGroupRestarts ::
  "DiagnosticResult \<Rightarrow> PodGroupStatus option \<Rightarrow> string \<Rightarrow> DiagnosticResult" where
  "checkGroupRestarts result grp component =
     (case grp of
        None \<Rightarrow> result
      | Some g \<Rightarrow>
          (let result = checkRestartCounts result (pg_Pods g) component;
               result = checkRestartCounts result (pg_FailingPods g) component
           in result))"

definition analyzeAndGenerateHints :: "GoLib \<Rightarrow> DiagnosticResult \<Rightarrow> DiagnosticResult" where
  "analyzeAndGenerateHints lib result =
     (let result = checkDatasetPhase lib result;
          result = checkMasterStatus result;
          result = checkWorkerStatus result;
          result = checkFuseStatus result;
          result = checkPVCStatus result;
          result = analyzeEvents result (Events result);
          result = checkGroupRestarts result (Master (Resources result)) ''master'';
          result = checkGroupRestarts result (Workers (Resources result)) ''worker'';
          result = checkGroupRestarts result (Fuse (Resources result)) ''fuse''
      in result)"

section \<open>Health verdict (diagnoser.go, determineHealthStatus)\<close>

text \<open>
  The loop over \<open>result.FailureHints\<close> carries the two flags \<open>hasCritical\<close> and
  \<open>hasWarning\<close>; one iteration is \<open>severityStep\<close>.
\<close>

fun severityStep :: "bool \<times> bool \<Rightarrow> FailureHint \<Rightarrow> bool \<times> bool" where
  "severityStep (hasCritical, hasWarning) hint =
     (if Severity hint = ''critical'' then (True, hasWarning)
      else if Severity hint = ''warning'' then (hasCritical, True)
      else (hasCritical, hasWarning))"

fun severityScan :: "bool \<times> bool \<Rightarrow> FailureHint list \<Rightarrow> bool \<times> bool" where
  "severityScan flags [] = flags"
| "severityScan flags (hint # hints) = severityScan (severityStep flags hint) hints"

text \<open>The four \<open>if\<close> statements that clear \<open>allHealthy\<close>, in the source's order.\<close>

definition allHealthyCheck :: "DiagnosticResources \<Rightarrow> bool" where
  "allHealthyCheck res =
     (let allHealthy = True;
          allHealthy = (if Master res \<noteq> None \<and> \<not> pg_Healthy (the (Master res)) then False else allHealthy);
          allHealthy = (if Workers res \<noteq> None \<and> \<not> pg_Healthy (the (Workers res)) then False else allHealthy);
          allHealthy = (if Fuse res \<noteq> None \<and> \<not> pg_Healthy (the (Fuse res)) then False else allHealthy);
          allHealthy = (if PVC res \<noteq> None \<and> pvc_Phase (the (PVC res)) \<noteq> ''Bound'' then False else allHealthy)
      in allHealthy)"

definition determineHealthStatus :: "DiagnosticResult \<Rightarrow> HealthStatus" where
  "determineHealthStatus result =
     (case severityScan (False, False) (FailureHints result) of
        (hasCritical, hasWarning) \<Rightarrow>
          if hasCritical then HealthStatusUnhealthy
          else if hasWarning then HealthStatusDegraded
          else if allHealthyCheck (Resources result) then HealthStatusHealthy
          else HealthStatusDegraded)"

section \<open>The AI-ready context (diagnoser.go, ToContext)\<close>

record ContextSummary =
  cs_DatasetName :: string
  cs_Namespace :: string
  cs_DatasetPhase :: string
  cs_RuntimeType :: string
  cs_HealthStatus :: HealthStatus
  cs_MasterReady :: string
  cs_WorkersReady :: string
  cs_FuseReady :: string
  cs_PVCStatus :: string
  cs_ErrorCount :: int
  cs_WarningCount :: int

record DiagnosticContext =
  ctx_Summary :: ContextSummary
  ctx_DatasetYAML :: string
  ctx_RuntimeYAML :: string
  ctx_Events :: "EventInfo list"
  ctx_Logs :: "string \<rightharpoonup> string"
  ctx_FailureHints :: "FailureHint list"
  ctx_CollectedAt :: Time
  ctx_Version :: string

definition readyRatio :: "PodGroupStatus option \<Rightarrow> string" where
  "readyRatio grp =
     (case grp of
        None \<Rightarrow> []
      | Some g \<Rightarrow> showInt32 (pg_Ready g) @ ''/'' @ showInt32 (pg_Desired g))"

fun countWarnings :: "int \<Rightarrow> EventInfo list \<Rightarrow> int" where
  "countWarnings n [] = n"
| "countWarnings n (event # events) =
     (if ev_Type event = ''Warning'' then countWarnings (n + 1) events
      else countWarnings n events)"

text \<open>
  The two loops \<open>for i, entry := range ...\<close> that fill \<open>ctx.Logs\<close> under the keys
  \<open>worker-i\<close> and \<open>fuse-i\<close>.
\<close>

fun normalizeEntries ::
  "GoLib \<Rightarrow> string \<Rightarrow> nat \<Rightarrow> LogEntry list \<Rightarrow> (string \<rightharpoonup> string) \<Rightarrow> (string \<rightharpoonup> string)" where
  "normalizeEntries lib pre i [] logs = logs"
| "normalizeEntries lib pre i (entry # entries) logs =
     (if le_Logs entry \<noteq> []
      then normalizeEntries lib pre (i + 1) entries
             (logs(pre @ showInt (int i) \<mapsto> normalizeLogs lib (le_Logs entry)))
      else normalizeEntries lib pre (i + 1) entries logs)"

definition ToContext :: "GoLib \<Rightarrow> DiagnosticResult \<Rightarrow> DiagnosticContext" where
  "ToContext lib result =
     (let summary =
            \<lparr>cs_DatasetName = DatasetName result, cs_Namespace = Namespace result,
             cs_DatasetPhase = extractPhaseFromYAML lib (DatasetYAML result),
             cs_RuntimeType = RuntimeType result, cs_HealthStatus = HealthStatus result,
             cs_MasterReady = readyRatio (Master (Resources result)),
             cs_WorkersReady = readyRatio (Workers (Resources result)),
             cs_FuseReady = readyRatio (Fuse (Resources result)),
             cs_PVCStatus = (case PVC (Resources result) of None \<Rightarrow> [] | Some pvc \<Rightarrow> pvc_Phase pvc),
             cs_ErrorCount = int (length (FailureHints result)),
             cs_WarningCount = countWarnings 0 (Events result)\<rparr>;
          logs = Map.empty;
          logs =
            (case lg_Master (Logs result) of
               None \<Rightarrow> logs
             | Some entry \<Rightarrow>
                 if le_Logs entry \<noteq> []
                 then logs(''master'' \<mapsto> normalizeLogs lib (le_Logs entry))
                 else logs);
          logs = normalizeEntries lib ''worker-'' 0 (lg_Workers (Logs result)) logs;
          logs = normalizeEntries lib ''fuse-'' 0 (lg_Fuse (Logs result)) logs
      in \<lparr>ctx_Summary = summary, ctx_DatasetYAML = DatasetYAML result,
          ctx_RuntimeYAML = RuntimeYAML result, ctx_Events = Events result,
          ctx_Logs = logs, ctx_FailureHints = FailureHints result,
          ctx_CollectedAt = CollectedAt result, ctx_Version = ''1.0''\<rparr>)"

section \<open>The pipeline (diagnoser.go, Diagnose)\<close>

text \<open>
  \<open>Diagnose\<close> returns the pair \<open>(*DiagnosticResult, error)\<close>, or panics inside the
  resource-status stage. \<open>now\<close> is what \<open>time.Now()\<close> reads.
\<close>

definition zeroResult :: DiagnosticResult where
  "zeroResult =
     \<lparr>CollectedAt = 0, DatasetName = [], Namespace = [], DatasetYAML = [], RuntimeYAML = [],
      RuntimeType = [], Events = [],
      Resources = \<lparr>Master = None, Workers = None, Fuse = None, PVC = None, PV = None\<rparr>,
      Logs = \<lparr>lg_Master = None, lg_Workers = [], lg_Fuse = []\<rparr>,
      FailureHints = [], HealthStatus = []\<rparr>"

text \<open>
  The three blocks \<open>if err := stage(...); err != nil { append a warning hint }\<close>: what
  a block appends for the error the stage returned.
\<close>

definition absorbError ::
  "error \<Rightarrow> DiagnosticResult \<Rightarrow> string \<Rightarrow> string \<Rightarrow> string \<Rightarrow> DiagnosticResult" where
  "absorbError err result component issue suggestion =
     (case err of
        Some e \<Rightarrow>
          appendHint result
            \<lparr>Severity = ''warning'', Component = component, Issue = issue,
             Suggestion = suggestion, Evidence = e\<rparr>
      | None \<Rightarrow> result)"

text \<open>
  The body of \<open>Diagnose\<close> over its four stages \<open>collectCRSnapshots\<close>,
  \<open>collectEvents\<close>, \<open>collectResourceStatus\<close> and \<open>collectLogs\<close>.
\<close>

definition DiagnoseStages ::
  "GoLib \<Rightarrow>
   (DiagnosticResult \<Rightarrow> error \<times> DiagnosticResult) \<Rightarrow>
   (DiagnosticResult \<Rightarrow> error \<times> DiagnosticResult) \<Rightarrow>
   (DiagnosticResult \<Rightarrow> (error \<times> DiagnosticResult) run) \<Rightarrow>
   (DiagnosticResult \<Rightarrow> error \<times> DiagnosticResult) \<Rightarrow>
   Time \<Rightarrow> string \<Rightarrow> string \<Rightarrow> (DiagnosticResult option \<times> error) run" where
  "DiagnoseStages lib snapshots events resources logs now namespace name =
     (let result = zeroResult\<lparr>CollectedAt := now, DatasetName := name, Namespace := namespace\<rparr> in
      case snapshots result of
        (Some err, _) \<Rightarrow> Returns (None, Some (''failed to collect CR snapshots: '' @ err))
      | (None, result) \<Rightarrow>
          (case events result of (err, result) \<Rightarrow>
             (let result = absorbError err result ''events'' ''Failed to collect events''
                             ''Check RBAC permissions for event access''
              in thenRun (resources result) (\<lambda>(err, result).
                   (let result = absorbError err result ''resources''
                                   ''Failed to collect resource status''
                                   ''Check RBAC permissions for pod/statefulset/daemonset access''
                    in case logs result of (err, result) \<Rightarrow>
                         (let result = absorbError err result ''logs''
                                         ''Failed to collect some logs''
                                         ''Check RBAC permissions for pod/log access'';
                              result = analyzeAndGenerateHints lib result;
                              result = result\<lparr>HealthStatus := determineHealthStatus result\<rparr>
                          in Returns (Some result, None)))))))"

definition Diagnose ::
  "GoLib \<Rightarrow> DatasetDiagnoser \<Rightarrow> Time \<Rightarrow> string \<Rightarrow> string \<Rightarrow>
   (DiagnosticResult option \<times> error) run" where
  "Diagnose lib d now namespace name =
     DiagnoseStages lib
       (collectCRSnapshots lib d namespace name)
       (collectEvents d namespace name)
       (collectResourceStatus d namespace name)
       (collectLogs d namespace name)
       now namespace name"

section \<open>A mock cluster\<close>

text \<open>
  A library instance for ASCII text and a small cluster, on which the pipeline is run
  in the examples below: dataset \<open>demo\<close> in namespace \<open>default\<close>, bound to a Jindo
  runtime (the probe of the Alluxio kind fails with a server error), one master, one
  of two workers ready, a fuse DaemonSet whose pods cannot be listed, a bound claim.
\<close>

definition asciiToLower :: "string \<Rightarrow> string" where
  "asciiToLower s =
     map (\<lambda>c. case map_of (zip ''ABCDEFGHIJKLMNOPQRSTUVWXYZ'' ''abcdefghijklmnopqrstuvwxyz'') c of
                 Some l \<Rightarrow> l
               | None \<Rightarrow> c) s"

definition asciiSpace :: "char \<Rightarrow> bool" where
  "asciiSpace c = (c \<in> set [CHR 0x09, CHR 0x0A, CHR 0x0B, CHR 0x0C, CHR 0x0D, CHR '' ''])"

definition asciiTrimSpace :: "string \<Rightarrow> string" where
  "asciiTrimSpace s = rev (dropWhile asciiSpace (rev (dropWhile asciiSpace s)))"

definition mockYaml :: "Unstructured \<Rightarrow> string + string" where
  "mockYaml obj =
     (case map_of obj ''status'' of
        Some (JObj st) \<Rightarrow>
          (case map_of st ''phase'' of
             Some (JStr ph) \<Rightarrow> Inr (''status:'' @ [CHR 0x0A] @ ''  phase: '' @ ph @ [CHR 0x0A])
           | _ \<Rightarrow> Inr (''status: {}'' @ [CHR 0x0A]))
      | _ \<Rightarrow> Inr (''{}'' @ [CHR 0x0A]))"

definition mockLib :: GoLib where
  "mockLib = \<lparr>ToLower = asciiToLower, TrimSpace = asciiTrimSpace, yamlMarshal = mockYaml\<rparr>"

definition mockEvent :: "string \<Rightarrow> string \<Rightarrow> Time \<Rightarrow> string \<Rightarrow> string \<Rightarrow> Event" where
  "mockEvent ty msg ts kind name =
     \<lparr>kev_Type = ty, kev_Reason = ''Mock'', kev_Message = msg, kev_Count = 1,
      kev_FirstTimestamp = 0, kev_LastTimestamp = ts, kev_Source_Component = ''kubelet'',
      kev_InvolvedObject_Kind = kind, kev_InvolvedObject_Name = name\<rparr>"

definition mockPod :: "string \<Rightarrow> string \<Rightarrow> int32 \<Rightarrow> Pod" where
  "mockPod name ready restarts =
     \<lparr>pod_Name = name, pod_Spec_NodeName = ''node-1'', pod_Status_Phase = ''Running'',
      pod_Status_ContainerStatuses =
        [\<lparr>cs_RestartCount = restarts, cs_State_Waiting = None, cs_State_Terminated = None,
          cs_State_Running = Some ()\<rparr>],
      pod_Status_Conditions =
        [\<lparr>pc_Type = ''Ready'', pc_Status = ready, pc_Reason = [], pc_Message = []\<rparr>]\<rparr>"

definition mockClient :: Client where
  "mockClient =
     \<lparr>dynamicGet = (\<lambda>resource namespace name.
        if namespace = ''default'' \<and> name = ''demo'' \<and> resource = ''datasets''
        then Inr [(''metadata'', JObj [(''name'', JStr ''demo''), (''uid'', JStr ''a1'')]),
                  (''status'', JObj [(''phase'', JStr ''Bound'')])]
        else if namespace = ''default'' \<and> name = ''demo'' \<and> resource = ''jindoruntimes''
        then Inr [(''metadata'', JObj [(''name'', JStr ''demo'')])]
        else if resource = ''alluxioruntimes'' then Inl (OtherError ''server error'')
        else Inl (NotFoundError ''not found'')),
      StatefulSetsGet = (\<lambda>namespace name.
        if name = ''demo-master''
        then Inr \<lparr>sts_Name = name, sts_Spec_Replicas = Some 1,
                  sts_Status_ReadyReplicas = 1, sts_Status_AvailableReplicas = 1\<rparr>
        else if name = ''demo-worker''
        then Inr \<lparr>sts_Name = name, sts_Spec_Replicas = Some 2,
                  sts_Status_ReadyReplicas = 1, sts_Status_AvailableReplicas = 1\<rparr>
        else Inl (NotFoundError ''not found'')),
      DaemonSetsGet = (\<lambda>namespace name.
        if name = ''demo-fuse''
        then Inr \<lparr>ds_Name = name, ds_Status_DesiredNumberScheduled = 3,
                  ds_Status_NumberReady = 2, ds_Status_NumberAvailable = 2,
                  ds_Status_NumberUnavailable = 1\<rparr>
        else Inl (NotFoundError ''not found'')),
      PersistentVolumeClaimsGet = (\<lambda>namespace name.
        if name = ''demo''
        then Inr \<lparr>kpvc_Name = name, kpvc_Spec_StorageClassName = Some ''fluid'',
                  kpvc_Spec_VolumeName = ''default-demo'', kpvc_Status_Phase = ''Bound'',
                  kpvc_Status_Capacity = Some [(''storage'', ''100Gi'')]\<rparr>
        else Inl (NotFoundError ''not found'')),
      PersistentVolumesGet = (\<lambda>name. Inl (OtherError ''forbidden'')),
      EventsList = (\<lambda>namespace selector.
        if selector = ''involvedObject.name=demo''
        then Inr [mockEvent ''Normal'' ''bound'' 20 ''Dataset'' ''demo'']
        else if selector = ''involvedObject.name=demo-worker''
        then Inr [mockEvent ''Warning'' ''Insufficient memory'' 10 ''StatefulSet'' ''demo-worker'',
                  mockEvent ''Normal'' ''created'' 30 ''StatefulSet'' ''demo-worker'']
        else if selector = ''involvedObject.name=demo-fuse''
        then Inl (OtherError ''forbidden'')
        else Inr []),
      PodsList = (\<lambda>namespace selector.
        if selector = ''release=demo,role=alluxio-master''
        then Inr [mockPod ''demo-master-0'' ''True'' 0]
        else if selector = ''release=demo,role=alluxio-worker''
        then Inr [mockPod ''demo-worker-0'' ''True'' 2, mockPod ''demo-worker-1'' ''False'' 5]
        else Inl (OtherError ''forbidden'')),
      PodsGetLogs = (\<lambda>namespace podName containerName tail.
        if podName = ''demo-master-0''
        then LogText (''started'' @ [CHR 0x0A] @ ''Password=abc'' @ [CHR 0x0A] @ ''serving'')
        else if podName = ''demo-worker-0'' then LogText []
        else StreamError ''container not running'')\<rparr>"

definition mockDiagnoser :: DatasetDiagnoser where
  "mockDiagnoser = NewDatasetDiagnoser mockClient"

text \<open>A cluster that answers every request with the same error.\<close>

definition failingClient :: "APIError \<Rightarrow> Client" where
  "failingClient err =
     \<lparr>dynamicGet = (\<lambda>resource namespace name. Inl err),
      StatefulSetsGet = (\<lambda>namespace name. Inl err),
      DaemonSetsGet = (\<lambda>namespace name. Inl err),
      PersistentVolumeClaimsGet = (\<lambda>namespace name. Inl err),
      PersistentVolumesGet = (\<lambda>name. Inl err),
      EventsList = (\<lambda>namespace selector. Inl err),
      PodsList = (\<lambda>namespace selector. Inl err),
      PodsGetLogs = (\<lambda>namespace podName containerName tail. StreamError (ErrorText err))\<rparr>"

text \<open>
  The mock cluster while its workers are scaled down from three to one: the
  StatefulSet already asks for one replica and still reports three ready.
\<close>

definition scaleDownClient :: Client where
  "scaleDownClient =
     mockClient\<lparr>StatefulSetsGet := (\<lambda>namespace name.
        if name = ''demo-worker''
        then Inr \<lparr>sts_Name = name, sts_Spec_Replicas = Some 1,
                  sts_Status_ReadyReplicas = 3, sts_Status_AvailableReplicas = 3\<rparr>
        else StatefulSetsGet mockClient namespace name)\<rparr>"

definition scaleDownDiagnoser :: DatasetDiagnoser where
  "scaleDownDiagnoser = NewDatasetDiagnoser scaleDownClient"

text \<open>What the pipeline returns on the mock cluster.\<close>

definition mockStatus :: "string \<Rightarrow> bool \<Rightarrow> int32 \<Rightarrow> PodStatus" where
  "mockStatus name ready restarts =
     \<lparr>ps_Name = name, ps_Phase = ''Running'', ps_Ready = ready, ps_RestartCount = restarts,
      ps_Reason = [], ps_Message = [], ps_NodeName = ''node-1'',
      ps_ContainerState = ''Running'', ps_Conditions = []\<rparr>"

definition mockResult :: DiagnosticResult where
  "mockResult =
     \<lparr>CollectedAt = 1000, DatasetName = ''demo'', Namespace = ''default'',
      DatasetYAML = ''status:'' @ [CHR 0x0A] @ ''  phase: Bound'' @ [CHR 0x0A],
      RuntimeYAML = ''{}'' @ [CHR 0x0A],
      RuntimeType = ''jindoruntimes'',
      Events =
        map toEventInfo
          [mockEvent ''Normal'' ''created'' 30 ''StatefulSet'' ''demo-worker'',
           mockEvent ''Normal'' ''bound'' 20 ''Dataset'' ''demo'',
           mockEvent ''Warning'' ''Insufficient memory'' 10 ''StatefulSet'' ''demo-worker''],
      Resources =
        \<lparr>Master = Some
           \<lparr>pg_Name = ''demo-master'', pg_Kind = ''StatefulSet'', pg_Desired = 1, pg_Ready = 1,
            pg_Available = 1, pg_Unavailable = 0, pg_Healthy = True,
            pg_Pods = [mockStatus ''demo-master-0'' True 0], pg_FailingPods = []\<rparr>,
         Workers = Some
           \<lparr>pg_Name = ''demo-worker'', pg_Kind = ''StatefulSet'', pg_Desired = 2, pg_Ready = 1,
            pg_Available = 1, pg_Unavailable = 1, pg_Healthy = False,
            pg_Pods = [mockStatus ''demo-worker-0'' True 2],
            pg_FailingPods = [mockStatus ''demo-worker-1'' False 5]\<rparr>,
         Fuse = Some
           \<lparr>pg_Name = ''demo-fuse'', pg_Kind = ''DaemonSet'', pg_Desired = 3, pg_Ready = 2,
            pg_Available = 2, pg_Unavailable = 1, pg_Healthy = False,
            pg_Pods = [], pg_FailingPods = []\<rparr>,
         PVC = Some
           \<lparr>pvc_Name = ''demo'', pvc_Phase = ''Bound'', pvc_VolumeName = ''default-demo'',
            pvc_StorageClass = ''fluid'', pvc_Capacity = ''100Gi''\<rparr>,
         PV = Some
           \<lparr>pv_Name = [], pv_Phase = [], pv_StorageClass = [], pv_Capacity = [],
            pv_ReclaimPolicy = []\<rparr>\<rparr>,
      Logs =
        \<lparr>lg_Master = Some
           \<lparr>le_PodName = ''demo-master-0'', le_ContainerName = ''alluxio-master'',
            le_Logs = ''started'' @ [CHR 0x0A] @ ''Password=abc'' @ [CHR 0x0A] @ ''serving'',
            le_TailLines = 100, le_Truncated = True, le_Error = []\<rparr>,
         lg_Workers =
           [\<lparr>le_PodName = ''demo-worker-0'', le_ContainerName = ''alluxio-worker'',
             le_Logs = [], le_TailLines = 100, le_Truncated = False, le_Error = []\<rparr>,
            \<lparr>le_PodName = ''demo-worker-1'', le_ContainerName = ''alluxio-worker'',
             le_Logs = [], le_TailLines = 100, le_Truncated = False,
             le_Error = ''failed to get log stream: container not running''\<rparr>],
         lg_Fuse = []\<rparr>,
      FailureHints =
        [\<lparr>Severity = ''warning'', Component = ''worker'',
          Issue = ''Workers not healthy: 1/2 ready'',
          Suggestion = ''Check worker pod logs and node resources'', Evidence = []\<rparr>,
         \<lparr>Severity = ''warning'', Component = ''fuse'',
          Issue = ''Fuse not healthy: 2/3 ready'',
          Suggestion = ''Check fuse pod logs and node selectors/tolerations'', Evidence = []\<rparr>,
         \<lparr>Severity = ''warning'', Component = ''StatefulSet'',
          Issue = ''Resource insufficiency detected'',
          Suggestion = ''Check node resources and pod resource requests'',
          Evidence = ''Insufficient memory''\<rparr>,
         \<lparr>Severity = ''warning'', Component = ''worker'',
          Issue = ''High restart count (5) for pod demo-worker-1'',
          Suggestion = ''Check pod logs for crash reasons'', Evidence = []\<rparr>],
      HealthStatus = ''Degraded''\<rparr>"

section \<open>Facts about the library functions\<close>

lemma Split_not_Nil: "Split s c \<noteq> []"
  by (induction s) (auto split: list.splits)

lemma Split_no_sep: "l \<in> set (Split s c) \<Longrightarrow> c \<notin> set l"
proof (induction s arbitrary: l)
  case Nil
  then show ?case by simp
next
  case (Cons a s)
  show ?case
  proof (cases "a = c")
    case True
    with Cons show ?thesis by auto
  next
    case False
    obtain x xs where sp: "Split s c = x # xs"
      using Split_not_Nil [of s c] by (cases "Split s c") auto
    with Cons False show ?thesis by auto
  qed
qed

lemma Join_Cons: "ls \<noteq> [] \<Longrightarrow> Join (l # ls) sep = l @ sep @ Join ls sep"
  by (cases ls) auto

lemma Split_append_sep:
  "c \<notin> set l \<Longrightarrow> Split (l @ c # rest) c = l # Split rest c"
  by (induction l) auto

lemma Split_no_sep_id: "c \<notin> set l \<Longrightarrow> Split l c = [l]"
  by (induction l) auto

lemma Split_Join:
  "ls \<noteq> [] \<Longrightarrow> (\<forall>l \<in> set ls. c \<notin> set l) \<Longrightarrow> Split (Join ls [c]) c = ls"
proof (induction ls)
  case Nil
  then show ?case by simp
next
  case (Cons l ls)
  show ?case
  proof (cases ls)
    case Nil
    with Cons.prems show ?thesis by (simp add: Split_no_sep_id)
  next
    case (Cons m ms)
    with Cons.prems Cons.IH show ?thesis
      by (simp add: Split_append_sep del: Split.simps)
  qed
qed

lemma Join_Split: "Join (Split s c) [c] = s"
proof (induction s)
  case Nil
  show ?case by simp
next
  case (Cons a s)
  obtain x xs where sp: "Split s c = x # xs"
    using Split_not_Nil [of s c] by (cases "Split s c") auto
  show ?case
  proof (cases "a = c")
    case True
    with Cons sp show ?thesis by simp
  next
    case False
    with Cons sp show ?thesis by (cases xs) auto
  qed
qed

lemma Contains_iff_sublist: "Contains s sub \<longleftrightarrow> sublist sub s"
  by (induction s) (auto simp: sublist_Cons_right)

lemma cleanLines_map:
  "cleanLines lib cleaned ls =
     cleaned @ map (\<lambda>line. if looksSecret (ToLower lib line) then ''[REDACTED]'' else line) ls"
  by (induction ls arbitrary: cleaned) (auto simp: Let_def)

lemma looksSecret_iff:
  "looksSecret s \<longleftrightarrow>
     (\<exists>tok \<in> set [''password'', ''secret'', ''token'', ''api_key'', ''apikey'']. sublist tok s)"
  by (simp add: looksSecret_def Contains_iff_sublist)

section \<open>The health verdict\<close>

lemma severityScan_fst:
  "fst (severityScan flags hints) = (fst flags \<or> (\<exists>h \<in> set hints. Severity h = ''critical''))"
proof (induction hints arbitrary: flags)
  case Nil
  show ?case by simp
next
  case (Cons h hs)
  obtain c w where flags: "flags = (c, w)" by (cases flags)
  show ?case unfolding flags by (auto simp: Cons.IH)
qed

lemma severityScan_snd:
  "snd (severityScan flags hints) = (snd flags \<or> (\<exists>h \<in> set hints. Severity h = ''warning''))"
proof (induction hints arbitrary: flags)
  case Nil
  show ?case by simp
next
  case (Cons h hs)
  obtain c w where flags: "flags = (c, w)" by (cases flags)
  show ?case unfolding flags by (auto simp: Cons.IH)
qed

lemma allHealthyCheck_iff:
  "allHealthyCheck res =
     ((\<forall>g. Master res = Some g \<longrightarrow> pg_Healthy g) \<and>
      (\<forall>g. Workers res = Some g \<longrightarrow> pg_Healthy g) \<and>
      (\<forall>g. Fuse res = Some g \<longrightarrow> pg_Healthy g) \<and>
      (\<forall>p. PVC res = Some p \<longrightarrow> pvc_Phase p = ''Bound''))"
  by (auto simp: allHealthyCheck_def)

lemma determineHealthStatus_cases:
  "determineHealthStatus r =
     (if \<exists>h \<in> set (FailureHints r). Severity h = ''critical'' then HealthStatusUnhealthy
      else if \<exists>h \<in> set (FailureHints r). Severity h = ''warning'' then HealthStatusDegraded
      else if allHealthyCheck (Resources r) then HealthStatusHealthy
      else HealthStatusDegraded)"
proof -
  obtain c w where scan: "severityScan (False, False) (FailureHints r) = (c, w)"
    by (cases "severityScan (False, False) (FailureHints r)")
  have c: "c = (\<exists>h \<in> set (FailureHints r). Severity h = ''critical'')"
    using severityScan_fst [of "(False, False)" "FailureHints r"] by (simp add: scan)
  have w: "w = (\<exists>h \<in> set (FailureHints r). Severity h = ''warning'')"
    using severityScan_snd [of "(False, False)" "FailureHints r"] by (simp add: scan)
  show ?thesis
    unfolding determineHealthStatus_def scan using c w by simp
qed

lemma determineHealthStatus_update [simp]:
  "determineHealthStatus (r\<lparr>HealthStatus := h\<rparr>) = determineHealthStatus r"
  by (simp add: determineHealthStatus_def)

lemma thenRun_Returns_iff:
  "thenRun m f = Returns y \<longleftrightarrow> (\<exists>x. m = Returns x \<and> f x = Returns y)"
  by (cases m) auto

lemma DiagnoseStages_Returns_Some:
  assumes "DiagnoseStages lib s1 s2 s3 s4 now ns name = Returns (Some result, err)"
  obtains r1 e2 r2 e3 r3 e4 r4 where
    "s1 (zeroResult\<lparr>CollectedAt := now, DatasetName := name, Namespace := ns\<rparr>) = (None, r1)"
    "s2 r1 = (e2, r2)"
    "s3 (absorbError e2 r2 ''events'' ''Failed to collect events''
           ''Check RBAC permissions for event access'') = Returns (e3, r3)"
    "s4 (absorbError e3 r3 ''resources'' ''Failed to collect resource status''
           ''Check RBAC permissions for pod/statefulset/daemonset access'') = (e4, r4)"
    "result = (let a = analyzeAndGenerateHints lib
                 (absorbError e4 r4 ''logs'' ''Failed to collect some logs''
                    ''Check RBAC permissions for pod/log access'')
               in a\<lparr>HealthStatus := determineHealthStatus a\<rparr>)"
    "err = None"
proof -
  let ?r0 = "zeroResult\<lparr>CollectedAt := now, DatasetName := name, Namespace := ns\<rparr>"
  obtain e1 r1 where s1: "s1 ?r0 = (e1, r1)" by (cases "s1 ?r0")
  obtain e2 r2 where s2: "s2 r1 = (e2, r2)" by (cases "s2 r1")
  let ?r2 = "absorbError e2 r2 ''events'' ''Failed to collect events''
           ''Check RBAC permissions for event access''"
  from assms s1 have e1: "e1 = None"
    by (cases e1) (auto simp: DiagnoseStages_def)
  from assms s1 s2 e1 obtain x where s3: "s3 ?r2 = Returns x"
    by (cases "s3 ?r2") (auto simp: DiagnoseStages_def Let_def)
  obtain e3 r3 where x: "x = (e3, r3)" by (cases x)
  let ?r3 = "absorbError e3 r3 ''resources'' ''Failed to collect resource status''
           ''Check RBAC permissions for pod/statefulset/daemonset access''"
  obtain e4 r4 where s4: "s4 ?r3 = (e4, r4)" by (cases "s4 ?r3")
  from assms s1 s2 e1 s3 x s4 have
    "result = (let a = analyzeAndGenerateHints lib
                 (absorbError e4 r4 ''logs'' ''Failed to collect some logs''
                    ''Check RBAC permissions for pod/log access'')
               in a\<lparr>HealthStatus := determineHealthStatus a\<rparr>)" and "err = None"
    by (auto simp: DiagnoseStages_def Let_def)
  with that [OF _ s2 _ s4] s1 e1 s3 x show thesis by blast
qed

lemma Diagnose_verdict:
  assumes "Diagnose lib d now ns name = Returns (Some result, err)"
  shows "HealthStatus result = determineHealthStatus result"
  using assms unfolding Diagnose_def
  by (elim DiagnoseStages_Returns_Some) (simp add: Let_def)

section \<open>Log normalization\<close>

text \<open>
  Claim C2, as stated, names the tokens password, secret, token and api key. The
  program tests for the five literals \<open>password\<close>, \<open>secret\<close>, \<open>token\<close>,
  \<open>api_key\<close> and \<open>apikey\<close>: a line that spells the key with a space contains the
  words \<open>api key\<close> and is passed on unredacted.
\<close>

theorem normalizeLogs_api_key_counterexample:
  "Contains (ToLower mockLib ''API Key=abc'') ''api key'' \<and>
   normalizeLogs mockLib ''API Key=abc'' = ''API Key=abc''"
  by (simp add: normalizeLogs_def looksSecret_def mockLib_def asciiToLower_def)

text \<open>
  Claim C2, amended. Log normalization works line by line on the lines
  \<open>Split logs "\n"\<close> of its input: a line whose lower-cased text contains one of the
  five literals \<open>password\<close>, \<open>secret\<close>, \<open>token\<close>, \<open>api_key\<close>, \<open>apikey\<close> is
  replaced by the marker \<open>[REDACTED]\<close>, every other line is passed on unchanged, and
  the lines of the output are exactly these.
\<close>

theorem normalizeLogs_redacts_lines:
  "normalizeLogs lib logs =
     Join (map (\<lambda>line.
                 if \<exists>tok \<in> set [''password'', ''secret'', ''token'', ''api_key'', ''apikey''].
                      sublist tok (ToLower lib line)
                 then ''[REDACTED]'' else line)
               (Split logs CHR 0x0A)) [CHR 0x0A] \<and>
   Split (normalizeLogs lib logs) CHR 0x0A =
     map (\<lambda>line.
            if \<exists>tok \<in> set [''password'', ''secret'', ''token'', ''api_key'', ''apikey''].
                 sublist tok (ToLower lib line)
            then ''[REDACTED]'' else line)
         (Split logs CHR 0x0A)"
proof -
  let ?f = "\<lambda>line. if looksSecret (ToLower lib line) then ''[REDACTED]'' else line"
  let ?ls = "map ?f (Split logs CHR 0x0A)"
  have n: "normalizeLogs lib logs = Join ?ls [CHR 0x0A]"
    by (simp add: normalizeLogs_def cleanLines_map)
  have "?ls \<noteq> []" by (simp add: Split_not_Nil)
  moreover have "\<forall>l \<in> set ?ls. CHR 0x0A \<notin> set l"
    by (auto dest: Split_no_sep)
  ultimately have "Split (Join ?ls [CHR 0x0A]) CHR 0x0A = ?ls"
    by (rule Split_Join)
  with n show ?thesis by (simp add: looksSecret_iff)
qed

text \<open>An instance: the second of three lines holds a password.\<close>

theorem normalizeLogs_redacts_lines_witness:
  "Split (normalizeLogs mockLib (''started'' @ [CHR 0x0A] @ ''Password=abc'' @ [CHR 0x0A] @ ''serving''))
     CHR 0x0A = [''started'', ''[REDACTED]'', ''serving'']"
  using normalizeLogs_redacts_lines
    [of mockLib "''started'' @ [CHR 0x0A] @ ''Password=abc'' @ [CHR 0x0A] @ ''serving''"]
  by (simp add: mockLib_def asciiToLower_def Contains_iff_sublist [symmetric])

section \<open>Runtime resolution\<close>

lemma probeRuntimes_find:
  "probeRuntimes c namespace name kinds =
     (case List.find (\<lambda>kind. \<not> isl (dynamicGet c kind namespace name)) kinds of
        None \<Rightarrow> (None, [], None)
      | Some kind \<Rightarrow> (Some (projr (dynamicGet c kind namespace name)), kind, None))"
  by (induction kinds) (auto split: sum.splits)

text \<open>
  Claim C8, as stated, fails in its last part: a probe that fails for another reason
  than not-found is skipped exactly as a not-found one is. With every probe refused by
  the server the answer is the same as with every kind absent: no runtime, no error.
\<close>

theorem TryFindRuntime_transport_failure_counterexample:
  "TryFindRuntime (failingClient (OtherError ''connection refused'')) ''default'' ''demo'' =
     (None, [], None) \<and>
   TryFindRuntime (failingClient (NotFoundError ''not found'')) ''default'' ''demo'' =
     (None, [], None)"
  by (simp add: TryFindRuntime_def runtimeTypes_def failingClient_def)

text \<open>
  Claim C8, amended. The kinds are probed in the fixed order \<open>runtimeTypes\<close>; the answer
  is the first kind whose probe succeeds, with the object it returned; a failing probe,
  not-found or not, moves on to the next kind; when every probe fails there is no
  runtime and no error. An error is never returned.
\<close>

theorem TryFindRuntime_first_resolving_kind:
  "runtimeTypes =
     [''alluxioruntimes'', ''jindoruntimes'', ''juicefsruntimes'', ''efcruntimes'',
      ''thinruntimes'', ''vineyardruntimes'', ''goosefsruntimes''] \<and>
   TryFindRuntime c namespace name =
     (case List.find (\<lambda>kind. \<not> isl (dynamicGet c kind namespace name)) runtimeTypes of
        None \<Rightarrow> (None, [], None)
      | Some kind \<Rightarrow> (Some (projr (dynamicGet c kind namespace name)), kind, None)) \<and>
   snd (snd (TryFindRuntime c namespace name)) = None"
proof -
  have "snd (snd (TryFindRuntime c namespace name)) = None"
    unfolding TryFindRuntime_def probeRuntimes_find by (simp split: option.splits)
  then show ?thesis
    unfolding TryFindRuntime_def probeRuntimes_find by (simp add: runtimeTypes_def)
qed

text \<open>
  On the mock cluster the Alluxio probe fails with a server error and the Jindo kind
  resolves.
\<close>

theorem TryFindRuntime_first_resolving_kind_witness:
  "TryFindRuntime mockClient ''default'' ''demo'' =
     (Some [(''metadata'', JObj [(''name'', JStr ''demo'')])], ''jindoruntimes'', None)"
proof -
  have "TryFindRuntime mockClient ''default'' ''demo'' =
          (case List.find (\<lambda>kind. \<not> isl (dynamicGet mockClient kind ''default'' ''demo''))
                  runtimeTypes of
             None \<Rightarrow> (None, [], None)
           | Some kind \<Rightarrow> (Some (projr (dynamicGet mockClient kind ''default'' ''demo'')), kind, None))"
    using TryFindRuntime_first_resolving_kind [of mockClient "''default''" "''demo''"]
    by (rule conjunct2 [THEN conjunct1])
  also have "\<dots> = (Some [(''metadata'', JObj [(''name'', JStr ''demo'')])], ''jindoruntimes'', None)"
    by (simp add: runtimeTypes_def mockClient_def)
  finally show ?thesis .
qed

section \<open>What each step of the pipeline leaves unchanged\<close>

lemma appendHint_fields [simp]:
  "FailureHints (appendHint r h) = FailureHints r @ [h]"
  "Events (appendHint r h) = Events r"
  "Resources (appendHint r h) = Resources r"
  "Logs (appendHint r h) = Logs r"
  "DatasetYAML (appendHint r h) = DatasetYAML r"
  by (simp_all add: appendHint_def)

lemma absorbError_fields [simp]:
  "Events (absorbError e r c i s) = Events r"
  "Resources (absorbError e r c i s) = Resources r"
  "Logs (absorbError e r c i s) = Logs r"
  "DatasetYAML (absorbError e r c i s) = DatasetYAML r"
  by (simp_all add: absorbError_def split: option.splits)

lemma absorbError_None [simp]: "absorbError None r c i s = r"
  by (simp add: absorbError_def)


text \<open>The analysis only appends hints.\<close>

lemma checkDatasetPhase_frame:
  "checkDatasetPhase lib r = r\<lparr>FailureHints := FailureHints (checkDatasetPhase lib r)\<rparr>"
  by (simp add: checkDatasetPhase_def appendHint_def Let_def)

lemma checkMasterStatus_frame:
  "checkMasterStatus r = r\<lparr>FailureHints := FailureHints (checkMasterStatus r)\<rparr>"
  by (simp add: checkMasterStatus_def appendHint_def split: option.splits)

lemma checkWorkerStatus_frame:
  "checkWorkerStatus r = r\<lparr>FailureHints := FailureHints (checkWorkerStatus r)\<rparr>"
  by (simp add: checkWorkerStatus_def appendHint_def split: option.splits)

lemma checkFuseStatus_frame:
  "checkFuseStatus r = r\<lparr>FailureHints := FailureHints (checkFuseStatus r)\<rparr>"
  by (simp add: checkFuseStatus_def appendHint_def split: option.splits)

lemma checkPVCStatus_frame:
  "checkPVCStatus r = r\<lparr>FailureHints := FailureHints (checkPVCStatus r)\<rparr>"
  by (simp add: checkPVCStatus_def appendHint_def split: option.splits)

lemma analyzeWarningEvent_frame:
  "analyzeWarningEvent r e = r\<lparr>FailureHints := FailureHints (analyzeWarningEvent r e)\<rparr>"
  by (simp add: analyzeWarningEvent_def appendHint_def Let_def)

lemma frame_trans:
  assumes "r1 = r\<lparr>FailureHints := h1\<rparr>" and "r2 = r1\<lparr>FailureHints := h2\<rparr>"
  shows "r2 = r\<lparr>FailureHints := FailureHints r2\<rparr>"
  using assms by simp

lemma analyzeEvents_frame:
  "analyzeEvents r es = r\<lparr>FailureHints := FailureHints (analyzeEvents r es)\<rparr>"
proof (induction es arbitrary: r)
  case Nil
  show ?case by simp
next
  case (Cons e es)
  show ?case
  proof (cases "ev_Type e = ''Warning''")
    case True
    have "analyzeEvents (analyzeWarningEvent r e) es =
            r\<lparr>FailureHints := FailureHints (analyzeEvents (analyzeWarningEvent r e) es)\<rparr>"
      by (rule frame_trans [OF analyzeWarningEvent_frame Cons.IH])
    with True show ?thesis by simp
  next
    case False
    with Cons.IH [of r] show ?thesis by simp
  qed
qed

lemma checkRestartCounts_frame:
  "checkRestartCounts r pods c = r\<lparr>FailureHints := FailureHints (checkRestartCounts r pods c)\<rparr>"
proof (induction pods arbitrary: r)
  case Nil
  show ?case by simp
next
  case (Cons p ps)
  show ?case
  proof (cases "3 <s ps_RestartCount p")
    case True
    let ?r1 = "appendHint r \<lparr>Severity = ''warning'', Component = c, Issue = restartIssue p,
                 Suggestion = ''Check pod logs for crash reasons'', Evidence = []\<rparr>"
    have "?r1 = r\<lparr>FailureHints := FailureHints ?r1\<rparr>" by (simp add: appendHint_def)
    from frame_trans [OF this Cons.IH] True show ?thesis by simp
  next
    case False
    with Cons.IH [of r] show ?thesis by simp
  qed
qed

lemma checkGroupRestarts_frame:
  "checkGroupRestarts r g c = r\<lparr>FailureHints := FailureHints (checkGroupRestarts r g c)\<rparr>"
proof (cases g)
  case None
  then show ?thesis by (simp add: checkGroupRestarts_def)
next
  case (Some x)
  have "checkRestartCounts (checkRestartCounts r (pg_Pods x) c) (pg_FailingPods x) c =
          r\<lparr>FailureHints := FailureHints
             (checkRestartCounts (checkRestartCounts r (pg_Pods x) c) (pg_FailingPods x) c)\<rparr>"
    by (rule frame_trans [OF checkRestartCounts_frame checkRestartCounts_frame])
  with Some show ?thesis by (simp add: checkGroupRestarts_def)
qed

lemma analyzeAndGenerateHints_frame:
  "analyzeAndGenerateHints lib r = r\<lparr>FailureHints := FailureHints (analyzeAndGenerateHints lib r)\<rparr>"
proof -
  note f1 = checkDatasetPhase_frame [of lib r]
  note f2 = frame_trans [OF f1 checkMasterStatus_frame]
  note f3 = frame_trans [OF f2 checkWorkerStatus_frame]
  note f4 = frame_trans [OF f3 checkFuseStatus_frame]
  note f5 = frame_trans [OF f4 checkPVCStatus_frame]
  note f6 = frame_trans [OF f5 analyzeEvents_frame]
  note f7 = frame_trans [OF f6 checkGroupRestarts_frame]
  note f8 = frame_trans [OF f7 checkGroupRestarts_frame]
  note f9 = frame_trans [OF f8 checkGroupRestarts_frame]
  show ?thesis
    unfolding analyzeAndGenerateHints_def Let_def by (rule f9)
qed

lemma analyze_fields:
  "Events (analyzeAndGenerateHints lib r) = Events r"
  "Resources (analyzeAndGenerateHints lib r) = Resources r"
  "Logs (analyzeAndGenerateHints lib r) = Logs r"
  "DatasetYAML (analyzeAndGenerateHints lib r) = DatasetYAML r"
  by (subst analyzeAndGenerateHints_frame, simp)+

section \<open>The collection stages\<close>

lemma GetAllRelatedEvents_no_error: "snd (GetAllRelatedEvents c namespace name) = None"
  by (simp add: GetAllRelatedEvents_def Let_def)

lemma collectEvents_eq:
  "collectEvents d namespace name r =
     (None, r\<lparr>Events := fst (GetAllRelatedEvents (client d) namespace name)\<rparr>)"
proof -
  obtain es e where g: "GetAllRelatedEvents (client d) namespace name = (es, e)"
    by (cases "GetAllRelatedEvents (client d) namespace name")
  with GetAllRelatedEvents_no_error [of "client d" namespace name] have "e = None" by simp
  with g show ?thesis by (simp add: collectEvents_def)
qed

lemma collectPodStatus_frame:
  "collectPodStatus d namespace name role g =
     g\<lparr>pg_Pods := pg_Pods (collectPodStatus d namespace name role g),
       pg_FailingPods := pg_FailingPods (collectPodStatus d namespace name role g)\<rparr>"
proof -
  have b: "bucketPods g pods =
             g\<lparr>pg_Pods := pg_Pods (bucketPods g pods),
               pg_FailingPods := pg_FailingPods (bucketPods g pods)\<rparr>" for pods g
  proof (induction pods arbitrary: g)
    case Nil
    show ?case by simp
  next
    case (Cons p ps)
    show ?case
    proof (cases "ps_Ready (extractPodStatus p)")
      case True
      with Cons.IH [of "g\<lparr>pg_Pods := pg_Pods g @ [extractPodStatus p]\<rparr>"]
      show ?thesis by (simp add: Let_def)
    next
      case False
      with Cons.IH [of "g\<lparr>pg_FailingPods := pg_FailingPods g @ [extractPodStatus p]\<rparr>"]
      show ?thesis by (simp add: Let_def)
    qed
  qed
  show ?thesis
    unfolding collectPodStatus_def Let_def
    by (cases "GetPodsByLabel (client d) namespace (''release='' @ name @ '',role=alluxio-'' @ role)")
       (auto split: option.splits intro: b)
qed

lemma bucketPods_lists:
  "pg_Pods (bucketPods g pods) = pg_Pods g @ filter ps_Ready (map extractPodStatus pods) \<and>
   pg_FailingPods (bucketPods g pods) =
     pg_FailingPods g @ filter (\<lambda>p. \<not> ps_Ready p) (map extractPodStatus pods)"
  by (induction pods arbitrary: g) (simp_all add: Let_def)

lemma collectPodStatus_lists:
  "pg_Pods (collectPodStatus d namespace name role g) =
     pg_Pods g @ filter ps_Ready (map extractPodStatus
       (fst (GetPodsByLabel (client d) namespace (''release='' @ name @ '',role=alluxio-'' @ role))))"
  "pg_FailingPods (collectPodStatus d namespace name role g) =
     pg_FailingPods g @ filter (\<lambda>p. \<not> ps_Ready p) (map extractPodStatus
       (fst (GetPodsByLabel (client d) namespace (''release='' @ name @ '',role=alluxio-'' @ role))))"
  by (auto simp: collectPodStatus_def Let_def GetPodsByLabel_def bucketPods_lists
      split: sum.splits)

lemma collectPVCStatus_fields [simp]:
  "Events (collectPVCStatus d namespace name r) = Events r"
  "Logs (collectPVCStatus d namespace name r) = Logs r"
  "FailureHints (collectPVCStatus d namespace name r) = FailureHints r"
  "DatasetYAML (collectPVCStatus d namespace name r) = DatasetYAML r"
  "Master (Resources (collectPVCStatus d namespace name r)) = Master (Resources r)"
  "Workers (Resources (collectPVCStatus d namespace name r)) = Workers (Resources r)"
  "Fuse (Resources (collectPVCStatus d namespace name r)) = Fuse (Resources r)"
  by (simp_all add: collectPVCStatus_def Let_def split: option.splits)

lemma collectFuseStatus_fields [simp]:
  "Events (collectFuseStatus d namespace name r) = Events r"
  "Logs (collectFuseStatus d namespace name r) = Logs r"
  "FailureHints (collectFuseStatus d namespace name r) = FailureHints r"
  "DatasetYAML (collectFuseStatus d namespace name r) = DatasetYAML r"
  "Master (Resources (collectFuseStatus d namespace name r)) = Master (Resources r)"
  "Workers (Resources (collectFuseStatus d namespace name r)) = Workers (Resources r)"
  by (simp_all add: collectFuseStatus_def split: option.splits)

lemma collectFuseStatus_Fuse:
  "Fuse (Resources (collectFuseStatus d namespace name r)) =
     (case fst (GetDaemonSet (client d) namespace (name @ ''-fuse'')) of
        None \<Rightarrow> Fuse (Resources r)
      | Some ds \<Rightarrow> Some (daemonSetGroup d namespace name ''fuse'' ds))"
  by (simp add: collectFuseStatus_def split: option.splits)

lemma collectMasterStatus_Returns:
  assumes "collectMasterStatus d namespace name r = Returns r'"
  shows "Events r' = Events r" "Logs r' = Logs r" "FailureHints r' = FailureHints r"
    "DatasetYAML r' = DatasetYAML r"
    "Workers (Resources r') = Workers (Resources r)" "Fuse (Resources r') = Fuse (Resources r)"
    "Master (Resources r') =
       (case fst (GetStatefulSet (client d) namespace (name @ ''-master'')) of
          None \<Rightarrow> Master (Resources r)
        | Some sts \<Rightarrow>
            (case statefulSetGroup d namespace name ''master'' sts of
               Returns g \<Rightarrow> Some g | Panics \<Rightarrow> None))"
  using assms
  by (auto simp: collectMasterStatus_def thenRun_Returns_iff split: option.splits)

lemma collectWorkerStatus_Returns:
  assumes "collectWorkerStatus d namespace name r = Returns r'"
  shows "Events r' = Events r" "Logs r' = Logs r" "FailureHints r' = FailureHints r"
    "DatasetYAML r' = DatasetYAML r"
    "Master (Resources r') = Master (Resources r)" "Fuse (Resources r') = Fuse (Resources r)"
    "Workers (Resources r') =
       (case fst (GetStatefulSet (client d) namespace (name @ ''-worker'')) of
          None \<Rightarrow> Workers (Resources r)
        | Some sts \<Rightarrow>
            (case statefulSetGroup d namespace name ''worker'' sts of
               Returns g \<Rightarrow> Some g | Panics \<Rightarrow> None))"
  using assms
  by (auto simp: collectWorkerStatus_def thenRun_Returns_iff split: option.splits)

lemma collectResourceStatus_Returns:
  assumes "collectResourceStatus d namespace name r = Returns (e, r')"
  shows "e = None" "Events r' = Events r" "Logs r' = Logs r" "FailureHints r' = FailureHints r"
    "DatasetYAML r' = DatasetYAML r"
    "Master (Resources r') =
       (case fst (GetStatefulSet (client d) namespace (name @ ''-master'')) of
          None \<Rightarrow> Master (Resources r)
        | Some sts \<Rightarrow>
            (case statefulSetGroup d namespace name ''master'' sts of
               Returns g \<Rightarrow> Some g | Panics \<Rightarrow> None))"
    "Workers (Resources r') =
       (case fst (GetStatefulSet (client d) namespace (name @ ''-worker'')) of
          None \<Rightarrow> Workers (Resources r)
        | Some sts \<Rightarrow>
            (case statefulSetGroup d namespace name ''worker'' sts of
               Returns g \<Rightarrow> Some g | Panics \<Rightarrow> None))"
    "Fuse (Resources r') =
       (case fst (GetDaemonSet (client d) namespace (name @ ''-fuse'')) of
          None \<Rightarrow> Fuse (Resources r)
        | Some ds \<Rightarrow> Some (daemonSetGroup d namespace name ''fuse'' ds))"
proof -
  from assms obtain r1 r2 where
    m: "collectMasterStatus d namespace name r = Returns r1" and
    w: "collectWorkerStatus d namespace name r1 = Returns r2" and
    e: "e = None" and
    r': "r' = collectPVCStatus d namespace name (collectFuseStatus d namespace name r2)"
    by (auto simp: collectResourceStatus_def thenRun_Returns_iff Let_def)
  note mf = collectMasterStatus_Returns [OF m]
  note wf = collectWorkerStatus_Returns [OF w]
  show "e = None" by (rule e)
  show "Events r' = Events r" by (simp add: r' mf wf)
  show "Logs r' = Logs r" by (simp add: r' mf wf)
  show "FailureHints r' = FailureHints r" by (simp add: r' mf wf)
  show "DatasetYAML r' = DatasetYAML r" by (simp add: r' mf wf)
  show "Master (Resources r') =
       (case fst (GetStatefulSet (client d) namespace (name @ ''-master'')) of
          None \<Rightarrow> Master (Resources r)
        | Some sts \<Rightarrow>
            (case statefulSetGroup d namespace name ''master'' sts of
               Returns g \<Rightarrow> Some g | Panics \<Rightarrow> None))"
    by (simp add: r' wf(5) mf(7) cong: option.case_cong)
  show "Workers (Resources r') =
       (case fst (GetStatefulSet (client d) namespace (name @ ''-worker'')) of
          None \<Rightarrow> Workers (Resources r)
        | Some sts \<Rightarrow>
            (case statefulSetGroup d namespace name ''worker'' sts of
               Returns g \<Rightarrow> Some g | Panics \<Rightarrow> None))"
    by (simp add: r' wf(7) mf(5) cong: option.case_cong)
  show "Fuse (Resources r') =
       (case fst (GetDaemonSet (client d) namespace (name @ ''-fuse'')) of
          None \<Rightarrow> Fuse (Resources r)
        | Some ds \<Rightarrow> Some (daemonSetGroup d namespace name ''fuse'' ds))"
    by (simp add: r' collectFuseStatus_Fuse wf(6) mf(6) cong: option.case_cong)
qed

lemma fuseLogsLoop_fields [simp]:
  "Events (fuseLogsLoop d namespace i pods r) = Events r"
  "Resources (fuseLogsLoop d namespace i pods r) = Resources r"
  "FailureHints (fuseLogsLoop d namespace i pods r) = FailureHints r"
  "DatasetYAML (fuseLogsLoop d namespace i pods r) = DatasetYAML r"
  "lg_Master (Logs (fuseLogsLoop d namespace i pods r)) = lg_Master (Logs r)"
  "lg_Workers (Logs (fuseLogsLoop d namespace i pods r)) = lg_Workers (Logs r)"
  by (induction d namespace i pods r rule: fuseLogsLoop.induct; simp)+

lemma collectFuseLogs_fields [simp]:
  "Events (collectFuseLogs d namespace r) = Events r"
  "Resources (collectFuseLogs d namespace r) = Resources r"
  "FailureHints (collectFuseLogs d namespace r) = FailureHints r"
  "DatasetYAML (collectFuseLogs d namespace r) = DatasetYAML r"
  "lg_Master (Logs (collectFuseLogs d namespace r)) = lg_Master (Logs r)"
  "lg_Workers (Logs (collectFuseLogs d namespace r)) = lg_Workers (Logs r)"
  by (simp_all add: collectFuseLogs_def split: option.splits)

lemma collectWorkerLogs_fields [simp]:
  "Events (collectWorkerLogs d namespace r) = Events r"
  "Resources (collectWorkerLogs d namespace r) = Resources r"
  "FailureHints (collectWorkerLogs d namespace r) = FailureHints r"
  "DatasetYAML (collectWorkerLogs d namespace r) = DatasetYAML r"
  "lg_Master (Logs (collectWorkerLogs d namespace r)) = lg_Master (Logs r)"
  "lg_Fuse (Logs (collectWorkerLogs d namespace r)) = lg_Fuse (Logs r)"
  by (simp_all add: collectWorkerLogs_def Let_def split: option.splits list.splits)

lemma collectMasterLogs_fields [simp]:
  "Events (collectMasterLogs d namespace r) = Events r"
  "Resources (collectMasterLogs d namespace r) = Resources r"
  "FailureHints (collectMasterLogs d namespace r) = FailureHints r"
  "DatasetYAML (collectMasterLogs d namespace r) = DatasetYAML r"
  "lg_Workers (Logs (collectMasterLogs d namespace r)) = lg_Workers (Logs r)"
  "lg_Fuse (Logs (collectMasterLogs d namespace r)) = lg_Fuse (Logs r)"
  by (simp_all add: collectMasterLogs_def split: option.splits list.splits prod.splits)

lemma collectLogs_eq:
  "collectLogs d namespace name r =
     (None, collectFuseLogs d namespace (collectWorkerLogs d namespace (collectMasterLogs d namespace r)))"
  by (simp add: collectLogs_def Let_def)

lemma collectCRSnapshots_fields [simp]:
  "Events (snd (collectCRSnapshots lib d namespace name r)) = Events r"
  "Resources (snd (collectCRSnapshots lib d namespace name r)) = Resources r"
  "Logs (snd (collectCRSnapshots lib d namespace name r)) = Logs r"
  "FailureHints (snd (collectCRSnapshots lib d namespace name r)) = FailureHints r"
  by (simp_all add: collectCRSnapshots_def Let_def split: sum.splits prod.splits option.splits)

text \<open>A run of \<open>Diagnose\<close> that returns a result, stage by stage.\<close>

lemma Diagnose_Returns_Some:
  assumes "Diagnose lib d now namespace name = Returns (Some result, err)"
  obtains r1 r3 r4 where
    "collectCRSnapshots lib d namespace name
       (zeroResult\<lparr>CollectedAt := now, DatasetName := name, Namespace := namespace\<rparr>) = (None, r1)"
    "collectResourceStatus d namespace name
       (r1\<lparr>Events := fst (GetAllRelatedEvents (client d) namespace name)\<rparr>) = Returns (None, r3)"
    "r4 = collectFuseLogs d namespace (collectWorkerLogs d namespace (collectMasterLogs d namespace r3))"
    "result = (analyzeAndGenerateHints lib r4)
                \<lparr>HealthStatus := determineHealthStatus (analyzeAndGenerateHints lib r4)\<rparr>"
    "err = None"
proof -
  from assms obtain r1 e2 r2 e3 r3 e4 r4 where
    s1: "collectCRSnapshots lib d namespace name
       (zeroResult\<lparr>CollectedAt := now, DatasetName := name, Namespace := namespace\<rparr>) = (None, r1)" and
    s2: "collectEvents d namespace name r1 = (e2, r2)" and
    s3: "collectResourceStatus d namespace name
           (absorbError e2 r2 ''events'' ''Failed to collect events''
              ''Check RBAC permissions for event access'') = Returns (e3, r3)" and
    s4: "collectLogs d namespace name
           (absorbError e3 r3 ''resources'' ''Failed to collect resource status''
              ''Check RBAC permissions for pod/statefulset/daemonset access'') = (e4, r4)" and
    res: "result = (let a = analyzeAndGenerateHints lib
                 (absorbError e4 r4 ''logs'' ''Failed to collect some logs''
                    ''Check RBAC permissions for pod/log access'')
               in a\<lparr>HealthStatus := determineHealthStatus a\<rparr>)" and
    err: "err = None"
    unfolding Diagnose_def by (rule DiagnoseStages_Returns_Some)
  from s2 have e2: "e2 = None"
    and r2: "r2 = r1\<lparr>Events := fst (GetAllRelatedEvents (client d) namespace name)\<rparr>"
    by (simp_all add: collectEvents_eq)
  from s3 have e3: "e3 = None"
    by (rule collectResourceStatus_Returns(1))
  from s4 e3 have e4: "e4 = None"
    and r4: "r4 = collectFuseLogs d namespace (collectWorkerLogs d namespace (collectMasterLogs d namespace r3))"
    by (simp_all add: collectLogs_eq)
  show thesis
  proof (rule that [OF s1 _ r4 _ err])
    show "collectResourceStatus d namespace name
       (r1\<lparr>Events := fst (GetAllRelatedEvents (client d) namespace name)\<rparr>) = Returns (None, r3)"
      using s3 e2 r2 e3 by simp
    show "result = (analyzeAndGenerateHints lib r4)
                \<lparr>HealthStatus := determineHealthStatus (analyzeAndGenerateHints lib r4)\<rparr>"
      using res e4 by (simp add: Let_def)
  qed
qed

lemma Diagnose_Events:
  assumes "Diagnose lib d now namespace name = Returns (Some result, err)"
  shows "Events result = fst (GetAllRelatedEvents (client d) namespace name)"
proof -
  from assms obtain r1 r3 r4 where
    s3: "collectResourceStatus d namespace name
       (r1\<lparr>Events := fst (GetAllRelatedEvents (client d) namespace name)\<rparr>) = Returns (None, r3)" and
    r4: "r4 = collectFuseLogs d namespace (collectWorkerLogs d namespace (collectMasterLogs d namespace r3))" and
    res: "result = (analyzeAndGenerateHints lib r4)
                \<lparr>HealthStatus := determineHealthStatus (analyzeAndGenerateHints lib r4)\<rparr>"
    by (rule Diagnose_Returns_Some)
  show ?thesis
    by (simp add: res analyze_fields r4 collectResourceStatus_Returns(2) [OF s3])
qed

section \<open>Sorting\<close>

lemma set_insertLess [simp]: "set (insertLess lt x xs) = insert x (set xs)"
  by (induction xs) auto

lemma mset_insertLess [simp]: "mset (insertLess lt x xs) = add_mset x (mset xs)"
  by (induction xs) auto

lemma mset_sortSlice: "mset (sortSlice lt xs) = mset xs"
proof -
  have "mset (foldl (\<lambda>placed x. insertLess lt x placed) acc xs) = mset acc + mset xs" for acc
    by (induction xs arbitrary: acc) auto
  then show ?thesis by (simp add: sortSlice_def)
qed

lemma insertLess_lastAfter_sorted:
  assumes "sorted_wrt (\<lambda>a b. ev_LastTimestamp b \<le> ev_LastTimestamp a) xs"
  shows "sorted_wrt (\<lambda>a b. ev_LastTimestamp b \<le> ev_LastTimestamp a) (insertLess lastAfter x xs)"
  using assms
proof (induction xs)
  case Nil
  show ?case by simp
next
  case (Cons y ys)
  show ?case
  proof (cases "lastAfter x y")
    case True
    then have "ev_LastTimestamp y < ev_LastTimestamp x"
      by (simp add: lastAfter_def After_def)
    with Cons.prems True show ?thesis by fastforce
  next
    case False
    then have "ev_LastTimestamp x \<le> ev_LastTimestamp y"
      by (simp add: lastAfter_def After_def)
    with Cons False show ?thesis by auto
  qed
qed

lemma sortSlice_lastAfter_sorted:
  "sorted_wrt (\<lambda>a b. ev_LastTimestamp b \<le> ev_LastTimestamp a) (sortSlice lastAfter xs)"
proof -
  have "sorted_wrt (\<lambda>a b. ev_LastTimestamp b \<le> ev_LastTimestamp a) acc \<Longrightarrow>
        sorted_wrt (\<lambda>a b. ev_LastTimestamp b \<le> ev_LastTimestamp a)
          (foldl (\<lambda>placed x. insertLess lastAfter x placed) acc xs)" for acc
    by (induction xs arbitrary: acc) (simp_all add: insertLess_lastAfter_sorted)
  then show ?thesis by (simp add: sortSlice_def)
qed

lemma GetAllRelatedEvents_sorted:
  "sorted_wrt (\<lambda>a b. ev_LastTimestamp b \<le> ev_LastTimestamp a)
     (fst (GetAllRelatedEvents c namespace name))"
  by (simp add: GetAllRelatedEvents_def Let_def sortSlice_lastAfter_sorted)

text \<open>
  Claim C5. The list \<open>GetAllRelatedEvents\<close> returns, which is the event list of every
  result the pipeline returns, is in descending order of the last timestamp: each
  event's last timestamp is at least that of the event after it.
\<close>

theorem events_sorted_by_last_timestamp:
  "(\<forall>i. i + 1 < length (fst (GetAllRelatedEvents c namespace name)) \<longrightarrow>
      ev_LastTimestamp (fst (GetAllRelatedEvents c namespace name) ! (i + 1))
        \<le> ev_LastTimestamp (fst (GetAllRelatedEvents c namespace name) ! i)) \<and>
   (Diagnose lib d now namespace name = Returns (Some result, err) \<longrightarrow>
      (\<forall>i. i + 1 < length (Events result) \<longrightarrow>
         ev_LastTimestamp (Events result ! (i + 1)) \<le> ev_LastTimestamp (Events result ! i)))"
proof -
  have idx: "\<forall>i. i + 1 < length (fst (GetAllRelatedEvents c namespace name)) \<longrightarrow>
      ev_LastTimestamp (fst (GetAllRelatedEvents c namespace name) ! (i + 1))
        \<le> ev_LastTimestamp (fst (GetAllRelatedEvents c namespace name) ! i)" for c
    using GetAllRelatedEvents_sorted [of c namespace name]
    by (simp add: sorted_wrt_iff_nth_less)
  show ?thesis
    using idx [of c] idx [of "client d"] by (auto simp: Diagnose_Events)
qed

section \<open>The run on the mock cluster\<close>

lemma mock_client [simp]: "client mockDiagnoser = mockClient" "tailLines mockDiagnoser = 100"
  by (simp_all add: mockDiagnoser_def NewDatasetDiagnoser_def defaultTailLines_def)

lemma mock_snapshots:
  "collectCRSnapshots mockLib mockDiagnoser ''default'' ''demo'' r =
     (None, r\<lparr>DatasetYAML := DatasetYAML mockResult,
              RuntimeType := ''jindoruntimes'', RuntimeYAML := RuntimeYAML mockResult\<rparr>)"
  by (simp add: collectCRSnapshots_def GetDataset_def mockClient_def mockLib_def mockYaml_def
      cleanCRForDiagnosis_def TryFindRuntime_def runtimeTypes_def AList.delete_eq AList.update_def
      mockResult_def)

lemma mock_events:
  "GetAllRelatedEvents mockClient ''default'' ''demo'' = (Events mockResult, None)"
  by (simp add: GetAllRelatedEvents_def GetEventsForObject_def mockClient_def sortSlice_def
      lastAfter_def After_def toEventInfo_def mockEvent_def mockResult_def)

lemma mock_pods:
  "extractPodStatus (mockPod name ''True'' n) = mockStatus name True n"
  "extractPodStatus (mockPod name ''False'' n) = mockStatus name False n"
  by (simp_all add: extractPodStatus_def mockPod_def mockStatus_def isPodReady_def PodReady_def
      ConditionTrue_def ConditionFalse_def)

lemma mock_resources:
  "collectResourceStatus mockDiagnoser ''default'' ''demo'' r =
     Returns (None, r\<lparr>Resources := Resources mockResult\<rparr>)"
  by (simp add: collectResourceStatus_def collectMasterStatus_def collectWorkerStatus_def
      collectFuseStatus_def collectPVCStatus_def statefulSetGroup_def daemonSetGroup_def
      collectPodStatus_def GetStatefulSet_def GetDaemonSet_def GetPVC_def GetPV_def
      GetPodsByLabel_def storageOf_def zeroPersistentVolume_def mockClient_def mock_pods
      mockResult_def mockStatus_def)

lemma mock_logs:
  "Resources r = Resources mockResult \<Longrightarrow> Logs r = Logs zeroResult \<Longrightarrow>
   collectLogs mockDiagnoser ''default'' ''demo'' r = (None, r\<lparr>Logs := Logs mockResult\<rparr>)"
  by (simp add: collectLogs_def collectMasterLogs_def collectWorkerLogs_def collectFuseLogs_def
      fetchEntry_def GetPodLogs_def zeroLogEntry_def mockClient_def mockResult_def mockStatus_def
      zeroResult_def)

lemma showNat_digit: "n < 10 \<Longrightarrow> showNat n = [digit n]"
  by (simp add: showNat.simps)

lemma showInt32_small:
  "showInt32 0 = ''0''" "showInt32 1 = ''1''" "showInt32 2 = ''2''" "showInt32 3 = ''3''"
  "showInt32 5 = ''5''"
  by (simp_all add: showInt32_def showInt_def showNat_digit digit_def)

lemma mock_phase: "extractPhaseFromYAML mockLib (DatasetYAML mockResult) = ''Bound''"
  by (simp add: extractPhaseFromYAML_def mockLib_def asciiTrimSpace_def asciiSpace_def
      mockResult_def)

lemma mock_checks:
  assumes "DatasetYAML r = DatasetYAML mockResult" and "Resources r = Resources mockResult"
  shows "checkDatasetPhase mockLib r = r" "checkMasterStatus r = r"
    "checkWorkerStatus r = appendHint r (FailureHints mockResult ! 0)"
    "checkFuseStatus r = appendHint r (FailureHints mockResult ! 1)"
    "checkPVCStatus r = r"
    "analyzeEvents r (Events mockResult) = appendHint r (FailureHints mockResult ! 2)"
    "checkGroupRestarts r (Master (Resources mockResult)) ''master'' = r"
    "checkGroupRestarts r (Workers (Resources mockResult)) ''worker'' =
       appendHint r (FailureHints mockResult ! 3)"
    "checkGroupRestarts r (Fuse (Resources mockResult)) ''fuse'' = r"
proof -
  show "checkDatasetPhase mockLib r = r"
    by (simp add: checkDatasetPhase_def assms mock_phase)
  show "checkMasterStatus r = r"
    by (simp add: checkMasterStatus_def assms) (simp add: mockResult_def)
  show "checkWorkerStatus r = appendHint r (FailureHints mockResult ! 0)"
    by (simp add: checkWorkerStatus_def assms) (simp add: mockResult_def showInt32_small)
  show "checkFuseStatus r = appendHint r (FailureHints mockResult ! 1)"
    by (simp add: checkFuseStatus_def assms) (simp add: mockResult_def showInt32_small)
  show "checkPVCStatus r = r"
    by (simp add: checkPVCStatus_def assms) (simp add: mockResult_def)
  show "analyzeEvents r (Events mockResult) = appendHint r (FailureHints mockResult ! 2)"
    by (simp add: mockResult_def analyzeWarningEvent_def toEventInfo_def mockEvent_def)
  show "checkGroupRestarts r (Master (Resources mockResult)) ''master'' = r"
    by (simp add: checkGroupRestarts_def mockResult_def mockStatus_def word_sless_alt)
  show "checkGroupRestarts r (Workers (Resources mockResult)) ''worker'' =
       appendHint r (FailureHints mockResult ! 3)"
    by (simp add: checkGroupRestarts_def mockResult_def mockStatus_def restartIssue_def
        showInt32_small word_sless_alt)
  show "checkGroupRestarts r (Fuse (Resources mockResult)) ''fuse'' = r"
    by (simp add: checkGroupRestarts_def mockResult_def)
qed

lemma mock_analysis:
  assumes "DatasetYAML r = DatasetYAML mockResult" and "Resources r = Resources mockResult"
    and "Events r = Events mockResult" and "FailureHints r = []"
  shows "analyzeAndGenerateHints mockLib r = r\<lparr>FailureHints := FailureHints mockResult\<rparr>"
proof -
  have hints: "FailureHints mockResult =
      [FailureHints mockResult ! 0, FailureHints mockResult ! 1, FailureHints mockResult ! 2,
       FailureHints mockResult ! 3]"
    by (simp add: mockResult_def)
  have "analyzeAndGenerateHints mockLib r =
      appendHint (appendHint (appendHint (appendHint r (FailureHints mockResult ! 0))
        (FailureHints mockResult ! 1)) (FailureHints mockResult ! 2)) (FailureHints mockResult ! 3)"
    by (simp add: analyzeAndGenerateHints_def Let_def mock_checks assms)
  also have "\<dots> = r\<lparr>FailureHints := [FailureHints mockResult ! 0, FailureHints mockResult ! 1,
       FailureHints mockResult ! 2, FailureHints mockResult ! 3]\<rparr>"
    by (simp add: appendHint_def assms)
  finally show ?thesis using hints by simp
qed

lemma mock_verdict:
  "FailureHints r = FailureHints mockResult \<Longrightarrow> determineHealthStatus r = ''Degraded''"
  by (simp add: determineHealthStatus_def mockResult_def HealthStatusDegraded_def)

lemma mock_run:
  "Diagnose mockLib mockDiagnoser 1000 ''default'' ''demo'' = Returns (Some mockResult, None)"
proof -
  let ?r0 = "zeroResult\<lparr>CollectedAt := 1000, DatasetName := ''demo'', Namespace := ''default''\<rparr>"
  let ?r1 = "?r0\<lparr>DatasetYAML := DatasetYAML mockResult,
              RuntimeType := ''jindoruntimes'', RuntimeYAML := RuntimeYAML mockResult\<rparr>"
  let ?r2 = "?r1\<lparr>Events := Events mockResult\<rparr>"
  let ?r3 = "?r2\<lparr>Resources := Resources mockResult\<rparr>"
  let ?r4 = "?r3\<lparr>Logs := Logs mockResult\<rparr>"
  have s2: "collectEvents mockDiagnoser ''default'' ''demo'' ?r1 = (None, ?r2)"
    by (simp add: collectEvents_def mock_events)
  have s4: "collectLogs mockDiagnoser ''default'' ''demo'' ?r3 = (None, ?r4)"
    by (rule mock_logs) simp_all
  have a: "analyzeAndGenerateHints mockLib ?r4 = ?r4\<lparr>FailureHints := FailureHints mockResult\<rparr>"
    by (rule mock_analysis) (simp_all add: zeroResult_def)
  have v: "determineHealthStatus (?r4\<lparr>FailureHints := FailureHints mockResult\<rparr>) = ''Degraded''"
    by (rule mock_verdict) simp
  have fin: "?r4\<lparr>FailureHints := FailureHints mockResult, HealthStatus := ''Degraded''\<rparr> = mockResult"
    by (simp add: zeroResult_def mockResult_def)
  show ?thesis
    unfolding Diagnose_def DiagnoseStages_def
    by (simp only: Let_def mock_snapshots s2 mock_resources s4 a v fin absorbError_None
        prod.case option.case thenRun.simps)
qed

text \<open>On the mock cluster: the three events of the result, newest first.\<close>

theorem events_sorted_by_last_timestamp_witness:
  "map ev_LastTimestamp (fst (GetAllRelatedEvents mockClient ''default'' ''demo'')) = [30, 20, 10] \<and>
   ev_LastTimestamp (Events mockResult ! 1) \<le> ev_LastTimestamp (Events mockResult ! 0) \<and>
   ev_LastTimestamp (Events mockResult ! 2) \<le> ev_LastTimestamp (Events mockResult ! 1)"
proof -
  have len: "length (Events mockResult) = 3"
    by (simp add: mockResult_def)
  have "\<forall>i. i + 1 < length (Events mockResult) \<longrightarrow>
         ev_LastTimestamp (Events mockResult ! (i + 1)) \<le> ev_LastTimestamp (Events mockResult ! i)"
    using events_sorted_by_last_timestamp
      [of mockClient "''default''" "''demo''" mockLib mockDiagnoser 1000 mockResult None]
      mock_run by blast
  then have "ev_LastTimestamp (Events mockResult ! (0 + 1)) \<le> ev_LastTimestamp (Events mockResult ! 0)"
    and "ev_LastTimestamp (Events mockResult ! (1 + 1)) \<le> ev_LastTimestamp (Events mockResult ! 1)"
    using len by simp_all
  moreover have "map ev_LastTimestamp (fst (GetAllRelatedEvents mockClient ''default'' ''demo'')) = [30, 20, 10]"
    by (simp add: mock_events) (simp add: mockResult_def toEventInfo_def mockEvent_def)
  ultimately show ?thesis by (simp add: numeral_2_eq_2)
qed

section \<open>The verdict of a run\<close>

text \<open>
  Claim C1. In every result the pipeline returns the verdict is Unhealthy exactly when
  some hint is critical; without a critical hint, a warning hint makes it Degraded;
  without either it is Healthy when every resolved group is healthy and a resolved
  claim is bound, and Degraded otherwise.
\<close>

theorem health_verdict_of_findings:
  assumes "Diagnose lib d now namespace name = Returns (Some result, err)"
  shows
    "(HealthStatus result = HealthStatusUnhealthy \<longleftrightarrow>
        (\<exists>h \<in> set (FailureHints result). Severity h = ''critical'')) \<and>
     ((\<forall>h \<in> set (FailureHints result). Severity h \<noteq> ''critical'') \<and>
      (\<exists>h \<in> set (FailureHints result). Severity h = ''warning'') \<longrightarrow>
        HealthStatus result = HealthStatusDegraded) \<and>
     ((\<forall>h \<in> set (FailureHints result). Severity h \<noteq> ''critical'' \<and> Severity h \<noteq> ''warning'') \<longrightarrow>
        HealthStatus result =
          (if (\<forall>g. Master (Resources result) = Some g \<longrightarrow> pg_Healthy g) \<and>
              (\<forall>g. Workers (Resources result) = Some g \<longrightarrow> pg_Healthy g) \<and>
              (\<forall>g. Fuse (Resources result) = Some g \<longrightarrow> pg_Healthy g) \<and>
              (\<forall>p. PVC (Resources result) = Some p \<longrightarrow> pvc_Phase p = ''Bound'')
           then HealthStatusHealthy else HealthStatusDegraded))"
proof -
  have v: "HealthStatus result = determineHealthStatus result"
    using assms by (rule Diagnose_verdict)
  have ne: "HealthStatusDegraded \<noteq> HealthStatusUnhealthy" "HealthStatusHealthy \<noteq> HealthStatusUnhealthy"
    by (simp_all add: HealthStatusDegraded_def HealthStatusUnhealthy_def HealthStatusHealthy_def)
  show ?thesis
    unfolding v determineHealthStatus_cases [of result] allHealthyCheck_iff
    using ne by auto
qed

text \<open>On the mock cluster: four warnings, no critical hint, verdict Degraded.\<close>

theorem health_verdict_of_findings_witness:
  "Diagnose mockLib mockDiagnoser 1000 ''default'' ''demo'' = Returns (Some mockResult, None) \<and>
   map Severity (FailureHints mockResult) = [''warning'', ''warning'', ''warning'', ''warning''] \<and>
   HealthStatus mockResult \<noteq> HealthStatusUnhealthy \<and>
   HealthStatus mockResult = HealthStatusDegraded"
proof -
  have s: "map Severity (FailureHints mockResult) = [''warning'', ''warning'', ''warning'', ''warning'']"
    by (simp add: mockResult_def)
  have c: "\<forall>h \<in> set (FailureHints mockResult). Severity h \<noteq> ''critical''"
    by (simp add: mockResult_def)
  have w: "\<exists>h \<in> set (FailureHints mockResult). Severity h = ''warning''"
    by (simp add: mockResult_def)
  from health_verdict_of_findings [OF mock_run] c w
  have "HealthStatus mockResult \<noteq> HealthStatusUnhealthy"
    and "HealthStatus mockResult = HealthStatusDegraded" by blast+
  with mock_run s show ?thesis by blast
qed

section \<open>Workload groups\<close>

lemma statefulSetGroup_Returns:
  assumes "statefulSetGroup d namespace name role sts = Returns g"
  shows "\<exists>replicas. sts_Spec_Replicas sts = Some replicas \<and>
           pg_Desired g = replicas \<and> pg_Ready g = sts_Status_ReadyReplicas sts \<and>
           pg_Available g = sts_Status_AvailableReplicas sts \<and>
           pg_Unavailable g = replicas - sts_Status_ReadyReplicas sts \<and>
           pg_Healthy g = (sts_Status_ReadyReplicas sts = replicas)"
    and "pg_Pods g = filter ps_Ready (map extractPodStatus
           (fst (GetPodsByLabel (client d) namespace (''release='' @ name @ '',role=alluxio-'' @ role))))"
    and "pg_FailingPods g = filter (\<lambda>p. \<not> ps_Ready p) (map extractPodStatus
           (fst (GetPodsByLabel (client d) namespace (''release='' @ name @ '',role=alluxio-'' @ role))))"
proof -
  from assms obtain replicas where
    rep: "sts_Spec_Replicas sts = Some replicas" and
    g: "g = collectPodStatus d namespace name role
            \<lparr>pg_Name = sts_Name sts, pg_Kind = ''StatefulSet'',
             pg_Desired = replicas,
             pg_Ready = sts_Status_ReadyReplicas sts,
             pg_Available = sts_Status_AvailableReplicas sts,
             pg_Unavailable = replicas - sts_Status_ReadyReplicas sts,
             pg_Healthy = (sts_Status_ReadyReplicas sts = replicas),
             pg_Pods = [], pg_FailingPods = []\<rparr>"
    by (auto simp: statefulSetGroup_def split: option.splits)
  show "\<exists>replicas. sts_Spec_Replicas sts = Some replicas \<and>
           pg_Desired g = replicas \<and> pg_Ready g = sts_Status_ReadyReplicas sts \<and>
           pg_Available g = sts_Status_AvailableReplicas sts \<and>
           pg_Unavailable g = replicas - sts_Status_ReadyReplicas sts \<and>
           pg_Healthy g = (sts_Status_ReadyReplicas sts = replicas)"
    unfolding g by (subst collectPodStatus_frame, simp add: rep)+
  show "pg_Pods g = filter ps_Ready (map extractPodStatus
           (fst (GetPodsByLabel (client d) namespace (''release='' @ name @ '',role=alluxio-'' @ role))))"
    unfolding g by (simp add: collectPodStatus_lists)
  show "pg_FailingPods g = filter (\<lambda>p. \<not> ps_Ready p) (map extractPodStatus
           (fst (GetPodsByLabel (client d) namespace (''release='' @ name @ '',role=alluxio-'' @ role))))"
    unfolding g by (simp add: collectPodStatus_lists)
qed

lemma daemonSetGroup_fields:
  "pg_Desired (daemonSetGroup d namespace name role ds) = ds_Status_DesiredNumberScheduled ds"
  "pg_Ready (daemonSetGroup d namespace name role ds) = ds_Status_NumberReady ds"
  "pg_Available (daemonSetGroup d namespace name role ds) = ds_Status_NumberAvailable ds"
  "pg_Unavailable (daemonSetGroup d namespace name role ds) = ds_Status_NumberUnavailable ds"
  "pg_Healthy (daemonSetGroup d namespace name role ds) =
     (ds_Status_NumberReady ds = ds_Status_DesiredNumberScheduled ds)"
  "pg_Pods (daemonSetGroup d namespace name role ds) = filter ps_Ready (map extractPodStatus
     (fst (GetPodsByLabel (client d) namespace (''release='' @ name @ '',role=alluxio-'' @ role))))"
  "pg_FailingPods (daemonSetGroup d namespace name role ds) =
     filter (\<lambda>p. \<not> ps_Ready p) (map extractPodStatus
       (fst (GetPodsByLabel (client d) namespace (''release='' @ name @ '',role=alluxio-'' @ role))))"
proof -
  show "pg_Desired (daemonSetGroup d namespace name role ds) = ds_Status_DesiredNumberScheduled ds"
    unfolding daemonSetGroup_def by (subst collectPodStatus_frame) simp
  show "pg_Ready (daemonSetGroup d namespace name role ds) = ds_Status_NumberReady ds"
    unfolding daemonSetGroup_def by (subst collectPodStatus_frame) simp
  show "pg_Available (daemonSetGroup d namespace name role ds) = ds_Status_NumberAvailable ds"
    unfolding daemonSetGroup_def by (subst collectPodStatus_frame) simp
  show "pg_Unavailable (daemonSetGroup d namespace name role ds) = ds_Status_NumberUnavailable ds"
    unfolding daemonSetGroup_def by (subst collectPodStatus_frame) simp
  show "pg_Healthy (daemonSetGroup d namespace name role ds) =
     (ds_Status_NumberReady ds = ds_Status_DesiredNumberScheduled ds)"
    unfolding daemonSetGroup_def by (subst collectPodStatus_frame) simp
  show "pg_Pods (daemonSetGroup d namespace name role ds) = filter ps_Ready (map extractPodStatus
     (fst (GetPodsByLabel (client d) namespace (''release='' @ name @ '',role=alluxio-'' @ role))))"
    unfolding daemonSetGroup_def by (simp add: collectPodStatus_lists)
  show "pg_FailingPods (daemonSetGroup d namespace name role ds) =
     filter (\<lambda>p. \<not> ps_Ready p) (map extractPodStatus
       (fst (GetPodsByLabel (client d) namespace (''release='' @ name @ '',role=alluxio-'' @ role))))"
    unfolding daemonSetGroup_def by (simp add: collectPodStatus_lists)
qed

text \<open>The groups of a result the pipeline returns are the ones the resource stage built.\<close>

lemma Diagnose_Resources:
  assumes "Diagnose lib d now namespace name = Returns (Some result, err)"
  shows
    "Master (Resources result) =
       (case fst (GetStatefulSet (client d) namespace (name @ ''-master'')) of
          None \<Rightarrow> None
        | Some sts \<Rightarrow>
            (case statefulSetGroup d namespace name ''master'' sts of
               Returns g \<Rightarrow> Some g | Panics \<Rightarrow> None))"
    "Workers (Resources result) =
       (case fst (GetStatefulSet (client d) namespace (name @ ''-worker'')) of
          None \<Rightarrow> None
        | Some sts \<Rightarrow>
            (case statefulSetGroup d namespace name ''worker'' sts of
               Returns g \<Rightarrow> Some g | Panics \<Rightarrow> None))"
    "Fuse (Resources result) =
       (case fst (GetDaemonSet (client d) namespace (name @ ''-fuse'')) of
          None \<Rightarrow> None
        | Some ds \<Rightarrow> Some (daemonSetGroup d namespace name ''fuse'' ds))"
proof -
  let ?r0 = "zeroResult\<lparr>CollectedAt := now, DatasetName := name, Namespace := namespace\<rparr>"
  from assms obtain r1 r3 r4 where
    s1: "collectCRSnapshots lib d namespace name ?r0 = (None, r1)" and
    s3: "collectResourceStatus d namespace name
       (r1\<lparr>Events := fst (GetAllRelatedEvents (client d) namespace name)\<rparr>) = Returns (None, r3)" and
    r4: "r4 = collectFuseLogs d namespace (collectWorkerLogs d namespace (collectMasterLogs d namespace r3))" and
    res: "result = (analyzeAndGenerateHints lib r4)
                \<lparr>HealthStatus := determineHealthStatus (analyzeAndGenerateHints lib r4)\<rparr>"
    by (rule Diagnose_Returns_Some)
  have "Resources r1 = Resources ?r0"
    using collectCRSnapshots_fields(2) [of lib d namespace name ?r0] by (simp add: s1)
  then have r1: "Master (Resources r1) = None" "Workers (Resources r1) = None"
    "Fuse (Resources r1) = None"
    by (simp_all add: zeroResult_def)
  have rr: "Resources result = Resources r3"
    by (simp add: res analyze_fields r4)
  show "Master (Resources result) =
       (case fst (GetStatefulSet (client d) namespace (name @ ''-master'')) of
          None \<Rightarrow> None
        | Some sts \<Rightarrow>
            (case statefulSetGroup d namespace name ''master'' sts of
               Returns g \<Rightarrow> Some g | Panics \<Rightarrow> None))"
    unfolding rr collectResourceStatus_Returns(6) [OF s3] by (simp add: r1 cong: option.case_cong)
  show "Workers (Resources result) =
       (case fst (GetStatefulSet (client d) namespace (name @ ''-worker'')) of
          None \<Rightarrow> None
        | Some sts \<Rightarrow>
            (case statefulSetGroup d namespace name ''worker'' sts of
               Returns g \<Rightarrow> Some g | Panics \<Rightarrow> None))"
    unfolding rr collectResourceStatus_Returns(7) [OF s3] by (simp add: r1 cong: option.case_cong)
  show "Fuse (Resources result) =
       (case fst (GetDaemonSet (client d) namespace (name @ ''-fuse'')) of
          None \<Rightarrow> None
        | Some ds \<Rightarrow> Some (daemonSetGroup d namespace name ''fuse'' ds))"
    unfolding rr collectResourceStatus_Returns(8) [OF s3] by (simp add: r1 cong: option.case_cong)
qed

lemma Diagnose_group_cases:
  assumes "Diagnose lib d now namespace name = Returns (Some result, err)"
    and "(role = ''master'' \<and> Master (Resources result) = Some g) \<or>
         (role = ''worker'' \<and> Workers (Resources result) = Some g) \<or>
         (role = ''fuse'' \<and> Fuse (Resources result) = Some g)"
  obtains (sts) s where "role = ''master'' \<or> role = ''worker''"
      "fst (GetStatefulSet (client d) namespace (name @ ''-'' @ role)) = Some s"
      "statefulSetGroup d namespace name role s = Returns g"
    | (ds) s where "role = ''fuse''"
      "fst (GetDaemonSet (client d) namespace (name @ ''-fuse'')) = Some s"
      "g = daemonSetGroup d namespace name ''fuse'' s"
proof -
  note R = Diagnose_Resources [OF assms(1)]
  from assms(2) consider
    "role = ''master''" "Master (Resources result) = Some g" |
    "role = ''worker''" "Workers (Resources result) = Some g" |
    "role = ''fuse''" "Fuse (Resources result) = Some g" by blast
  then show thesis
  proof cases
    case 1
    with R(1) obtain s where
      "fst (GetStatefulSet (client d) namespace (name @ ''-master'')) = Some s"
      "statefulSetGroup d namespace name ''master'' s = Returns g"
      by (auto split: option.splits run.splits)
    with 1 sts [of s] show thesis by simp
  next
    case 2
    with R(2) obtain s where
      "fst (GetStatefulSet (client d) namespace (name @ ''-worker'')) = Some s"
      "statefulSetGroup d namespace name ''worker'' s = Returns g"
      by (auto split: option.splits run.splits)
    with 2 sts [of s] show thesis by simp
  next
    case 3
    with R(3) obtain s where
      "fst (GetDaemonSet (client d) namespace (name @ ''-fuse'')) = Some s"
      "g = daemonSetGroup d namespace name ''fuse'' s"
      by (auto split: option.splits)
    with 3 ds [of s] show thesis by simp
  qed
qed

text \<open>
  Claim C7. For every workload group of a result the pipeline returns, master, workers
  or fuse: the group is healthy exactly when its ready count equals its desired count;
  its healthy list holds the statuses of the listed pods that are ready and its failing
  list those of the pods that are not, both in the order of the listing, so each
  collected pod status is in exactly one of the two lists, by its ready flag alone.
\<close>

theorem group_healthy_and_pods_bucketed:
  assumes "Diagnose lib d now namespace name = Returns (Some result, err)"
    and "(role = ''master'' \<and> Master (Resources result) = Some g) \<or>
         (role = ''worker'' \<and> Workers (Resources result) = Some g) \<or>
         (role = ''fuse'' \<and> Fuse (Resources result) = Some g)"
    and "statuses = map extractPodStatus
           (fst (GetPodsByLabel (client d) namespace (''release='' @ name @ '',role=alluxio-'' @ role)))"
  shows "pg_Healthy g = (pg_Ready g = pg_Desired g) \<and>
         pg_Pods g = filter ps_Ready statuses \<and>
         pg_FailingPods g = filter (\<lambda>p. \<not> ps_Ready p) statuses \<and>
         mset (pg_Pods g) + mset (pg_FailingPods g) = mset statuses \<and>
         (\<forall>p \<in> set statuses.
            (ps_Ready p \<longrightarrow> p \<in> set (pg_Pods g) \<and> p \<notin> set (pg_FailingPods g)) \<and>
            (\<not> ps_Ready p \<longrightarrow> p \<in> set (pg_FailingPods g) \<and> p \<notin> set (pg_Pods g)))"
proof -
  have lists: "pg_Healthy g = (pg_Ready g = pg_Desired g) \<and>
         pg_Pods g = filter ps_Ready statuses \<and>
         pg_FailingPods g = filter (\<lambda>p. \<not> ps_Ready p) statuses"
    using assms(1,2)
  proof (cases rule: Diagnose_group_cases)
    case (sts s)
    from statefulSetGroup_Returns [OF sts(3)] show ?thesis
      unfolding assms(3) by auto
  next
    case (ds s)
    then show ?thesis
      unfolding assms(3) by (simp add: daemonSetGroup_fields)
  qed
  moreover from lists have "mset (pg_Pods g) + mset (pg_FailingPods g) = mset statuses"
    by simp
  moreover from lists have "\<forall>p \<in> set statuses.
            (ps_Ready p \<longrightarrow> p \<in> set (pg_Pods g) \<and> p \<notin> set (pg_FailingPods g)) \<and>
            (\<not> ps_Ready p \<longrightarrow> p \<in> set (pg_FailingPods g) \<and> p \<notin> set (pg_Pods g))"
    by auto
  ultimately show ?thesis by blast
qed

text \<open>On the mock cluster: the worker group, one pod ready and one not.\<close>

theorem group_healthy_and_pods_bucketed_witness:
  "Workers (Resources mockResult) \<noteq> None \<and>
   pg_Healthy (the (Workers (Resources mockResult))) =
     (pg_Ready (the (Workers (Resources mockResult))) = pg_Desired (the (Workers (Resources mockResult)))) \<and>
   pg_Pods (the (Workers (Resources mockResult))) = [mockStatus ''demo-worker-0'' True 2] \<and>
   pg_FailingPods (the (Workers (Resources mockResult))) = [mockStatus ''demo-worker-1'' False 5]"
proof -
  obtain g where g: "Workers (Resources mockResult) = Some g"
    by (simp add: mockResult_def)
  have st: "map extractPodStatus
      (fst (GetPodsByLabel (client mockDiagnoser) ''default''
         (''release='' @ ''demo'' @ '',role=alluxio-'' @ ''worker''))) =
      [mockStatus ''demo-worker-0'' True 2, mockStatus ''demo-worker-1'' False 5]"
    by (simp add: GetPodsByLabel_def mockClient_def mock_pods)
  from group_healthy_and_pods_bucketed [OF mock_run, of "''worker''" g, OF _ refl] g
  have "pg_Healthy g = (pg_Ready g = pg_Desired g)"
    and "pg_Pods g = filter ps_Ready (map extractPodStatus
      (fst (GetPodsByLabel (client mockDiagnoser) ''default''
         (''release='' @ ''demo'' @ '',role=alluxio-'' @ ''worker''))))"
    and "pg_FailingPods g = filter (\<lambda>p. \<not> ps_Ready p) (map extractPodStatus
      (fst (GetPodsByLabel (client mockDiagnoser) ''default''
         (''release='' @ ''demo'' @ '',role=alluxio-'' @ ''worker''))))"
    by blast+
  then show ?thesis
    unfolding st by (simp add: g mockStatus_def)
qed

section \<open>The counts of a workload group\<close>

lemma sint_sub_in_range:
  fixes a b :: int32
  assumes "0 \<le>s b" and "b \<le>s a"
  shows "sint (a - b) = sint a - sint b"
proof -
  have b0: "0 \<le> sint b" and ba: "sint b \<le> sint a"
    using assms by (simp_all add: word_sle_eq)
  have "sint a < 2 ^ 31" using sint_lt [of a] by simp
  with b0 ba have "- (2 ^ 31) \<le> sint a - sint b" "sint a - sint b < 2 ^ 31"
    by simp_all
  then show ?thesis
    by (simp add: sint_word_ariths signed_take_bit_int_eq_self)
qed

text \<open>
  Claim C4, as stated, fails: the counts are copied from the workload object as they
  are. While the workers are scaled down the group reports 3 ready of 1 desired and
  \<open>1 - 3 = -2\<close> unavailable.
\<close>

theorem group_counts_scale_down_counterexample:
  "(case collectResourceStatus scaleDownDiagnoser ''default'' ''demo'' zeroResult of
      Panics \<Rightarrow> False
    | Returns (err, result) \<Rightarrow>
        (case Workers (Resources result) of
           None \<Rightarrow> False
         | Some g \<Rightarrow>
             sint (pg_Desired g) = 1 \<and> sint (pg_Ready g) = 3 \<and> sint (pg_Unavailable g) = - 2 \<and>
             \<not> (pg_Ready g \<le>s pg_Desired g) \<and> \<not> (0 \<le>s pg_Unavailable g)))"
  by (simp add: collectResourceStatus_def collectMasterStatus_def collectWorkerStatus_def
      collectFuseStatus_def collectPVCStatus_def statefulSetGroup_def daemonSetGroup_def
      collectPodStatus_def GetStatefulSet_def GetDaemonSet_def GetPVC_def GetPV_def
      GetPodsByLabel_def storageOf_def zeroPersistentVolume_def scaleDownDiagnoser_def
      scaleDownClient_def NewDatasetDiagnoser_def mockClient_def zeroResult_def word_sle_eq
      mock_pods mockStatus_def)

text \<open>
  Claim C4, amended. For every workload group of a result the pipeline returns, the
  counts are those of the workload object: for master and workers the desired count is
  \<open>spec.replicas\<close>, ready and available are the status fields and unavailable is
  desired minus ready in \<open>int32\<close>; for fuse the four counts are the four status fields
  of the DaemonSet. So the ready, available and unavailable counts are non-negative and
  ready is at most desired whenever the object itself reports a ready count between
  zero and the desired count and an available count (for fuse also an unavailable
  count) that is not negative.
\<close>

theorem group_counts_from_workload:
  assumes "Diagnose lib d now namespace name = Returns (Some result, err)"
    and "(role = ''master'' \<and> Master (Resources result) = Some g) \<or>
         (role = ''worker'' \<and> Workers (Resources result) = Some g) \<or>
         (role = ''fuse'' \<and> Fuse (Resources result) = Some g)"
  shows
    "(role \<noteq> ''fuse'' \<longrightarrow>
        (\<exists>s replicas.
           fst (GetStatefulSet (client d) namespace (name @ ''-'' @ role)) = Some s \<and>
           sts_Spec_Replicas s = Some replicas \<and>
           pg_Desired g = replicas \<and> pg_Ready g = sts_Status_ReadyReplicas s \<and>
           pg_Available g = sts_Status_AvailableReplicas s \<and>
           pg_Unavailable g = replicas - sts_Status_ReadyReplicas s \<and>
           (0 \<le>s pg_Ready g \<and> pg_Ready g \<le>s pg_Desired g \<longrightarrow>
              sint (pg_Unavailable g) = sint (pg_Desired g) - sint (pg_Ready g) \<and>
              0 \<le>s pg_Unavailable g))) \<and>
     (role = ''fuse'' \<longrightarrow>
        (\<exists>s. fst (GetDaemonSet (client d) namespace (name @ ''-fuse'')) = Some s \<and>
           pg_Desired g = ds_Status_DesiredNumberScheduled s \<and>
           pg_Ready g = ds_Status_NumberReady s \<and>
           pg_Available g = ds_Status_NumberAvailable s \<and>
           pg_Unavailable g = ds_Status_NumberUnavailable s))"
  using assms(1,2)
proof (cases rule: Diagnose_group_cases)
  case (sts s)
  from statefulSetGroup_Returns(1) [OF sts(3)] obtain replicas where
    f: "sts_Spec_Replicas s = Some replicas" "pg_Desired g = replicas"
      "pg_Ready g = sts_Status_ReadyReplicas s"
      "pg_Available g = sts_Status_AvailableReplicas s"
      "pg_Unavailable g = replicas - sts_Status_ReadyReplicas s"
    by blast
  have "sint (pg_Unavailable g) = sint (pg_Desired g) - sint (pg_Ready g) \<and> 0 \<le>s pg_Unavailable g"
    if "0 \<le>s pg_Ready g" "pg_Ready g \<le>s pg_Desired g"
  proof -
    have "sint (pg_Unavailable g) = sint (pg_Desired g) - sint (pg_Ready g)"
      using sint_sub_in_range [OF that] by (simp add: f)
    moreover from that(2) have "sint (pg_Ready g) \<le> sint (pg_Desired g)"
      by (simp add: word_sle_eq)
    ultimately show ?thesis by (simp add: word_sle_eq)
  qed
  with sts(1,2) f show ?thesis by auto
next
  case (ds s)
  then show ?thesis by (simp add: daemonSetGroup_fields)
qed

text \<open>On the mock cluster: the worker group, one of two ready, one unavailable.\<close>

theorem group_counts_from_workload_witness:
  "Workers (Resources mockResult) \<noteq> None \<and>
   0 \<le>s pg_Ready (the (Workers (Resources mockResult))) \<and>
   pg_Ready (the (Workers (Resources mockResult))) \<le>s pg_Desired (the (Workers (Resources mockResult))) \<and>
   0 \<le>s pg_Unavailable (the (Workers (Resources mockResult))) \<and>
   sint (pg_Unavailable (the (Workers (Resources mockResult)))) = 1"
proof -
  obtain g where g: "Workers (Resources mockResult) = Some g"
    by (simp add: mockResult_def)
  have v: "pg_Ready g = 1" "pg_Desired g = 2"
    using g by (auto simp: mockResult_def)
  have r: "0 \<le>s pg_Ready g" "pg_Ready g \<le>s pg_Desired g"
    by (simp_all add: v word_sle_eq)
  from group_counts_from_workload [OF mock_run, of "''worker''" g] g r
  have "sint (pg_Unavailable g) = sint (pg_Desired g) - sint (pg_Ready g)"
    and "0 \<le>s pg_Unavailable g"
    by auto
  with r g show ?thesis by (simp add: v)
qed

section \<open>Log entries\<close>

lemma fetchEntry_flag:
  "le_PodName (fetchEntry d namespace pod container) = ps_Name pod \<and>
   (\<forall>logs. GetPodLogs (client d) namespace (ps_Name pod) container (tailLines d) = (logs, None) \<longrightarrow>
      le_Logs (fetchEntry d namespace pod container) = logs \<and>
      le_Truncated (fetchEntry d namespace pod container) = (logs \<noteq> []) \<and>
      le_Error (fetchEntry d namespace pod container) = []) \<and>
   (\<forall>logs e. GetPodLogs (client d) namespace (ps_Name pod) container (tailLines d) = (logs, Some e) \<longrightarrow>
      le_Error (fetchEntry d namespace pod container) = e \<and>
      \<not> le_Truncated (fetchEntry d namespace pod container) \<and>
      le_Logs (fetchEntry d namespace pod container) = [])"
  by (auto simp: fetchEntry_def Let_def zeroLogEntry_def split: prod.splits option.splits)

lemma collectMasterLogs_entry:
  assumes "lg_Master (Logs (collectMasterLogs d namespace r)) = Some entry"
    and "lg_Master (Logs r) = None"
  shows
    "(\<forall>logs. GetPodLogs (client d) namespace (le_PodName entry) ''alluxio-master'' (tailLines d) = (logs, None) \<longrightarrow>
        le_Logs entry = logs \<and> le_Truncated entry = (logs \<noteq> []) \<and> le_Error entry = []) \<and>
     (\<forall>logs e. GetPodLogs (client d) namespace (le_PodName entry) ''alluxio-master'' (tailLines d) = (logs, Some e) \<longrightarrow>
        le_Error entry = e \<and> \<not> le_Truncated entry \<and> le_Logs entry = [])"
proof (cases "Master (Resources r)")
  case None
  with assms show ?thesis by (simp add: collectMasterLogs_def)
next
  case (Some master)
  show ?thesis
  proof (cases "pg_Pods master")
    case Nil
    with Some assms show ?thesis by (simp add: collectMasterLogs_def)
  next
    case (Cons pod pods)
    obtain logs e where
      g: "GetPodLogs (client d) namespace (ps_Name pod) ''alluxio-master'' (tailLines d) = (logs, e)"
      by (cases "GetPodLogs (client d) namespace (ps_Name pod) ''alluxio-master'' (tailLines d)")
    show ?thesis
    proof (cases e)
      case None
      with assms(1) Some Cons g have
        "entry = zeroLogEntry\<lparr>le_PodName := ps_Name pod, le_ContainerName := ''alluxio-master'',
                   le_Logs := logs, le_TailLines := tailLines d, le_Truncated := (0 < length logs)\<rparr>"
        by (simp add: collectMasterLogs_def)
      with g None show ?thesis by (simp add: zeroLogEntry_def)
    next
      case (Some err)
      with assms(1) \<open>Master (Resources r) = Some master\<close> Cons g have
        "entry = zeroLogEntry\<lparr>le_PodName := ps_Name pod, le_Error := err,
                   le_TailLines := tailLines d\<rparr>"
        by (simp add: collectMasterLogs_def)
      with g Some show ?thesis by (simp add: zeroLogEntry_def)
    qed
  qed
qed

lemma collectWorkerLogs_entries:
  assumes "entry \<in> set (lg_Workers (Logs (collectWorkerLogs d namespace r)))"
    and "lg_Workers (Logs r) = []"
  shows "\<exists>pod. entry = fetchEntry d namespace pod ''alluxio-worker''"
  using assms
  by (auto simp: collectWorkerLogs_def Let_def split: option.splits list.splits)

lemma fuseLogsLoop_entries:
  assumes "entry \<in> set (lg_Fuse (Logs (fuseLogsLoop d namespace i pods r)))"
  shows "entry \<in> set (lg_Fuse (Logs r)) \<or> (\<exists>pod. entry = fetchEntry d namespace pod ''alluxio-fuse'')"
  using assms
proof (induction d namespace i pods r rule: fuseLogsLoop.induct)
  case (1 d namespace i result)
  then show ?case by simp
next
  case (2 d namespace i pod pods result)
  show ?case
  proof (cases "maxLogsPerGroup \<le> i")
    case True
    with 2 show ?thesis by simp
  next
    case False
    with 2 show ?thesis by auto
  qed
qed

lemma collectFuseLogs_entries:
  assumes "entry \<in> set (lg_Fuse (Logs (collectFuseLogs d namespace r)))"
    and "lg_Fuse (Logs r) = []"
  shows "\<exists>pod. entry = fetchEntry d namespace pod ''alluxio-fuse''"
  using assms fuseLogsLoop_entries [of entry d namespace 0 _ r]
  by (auto simp: collectFuseLogs_def split: option.splits if_splits)

text \<open>
  Claim C10. For every log entry of a result the pipeline returns, built for a pod and
  a container: when the fetch of that pod's log succeeded, the entry holds the fetched
  text and its truncated flag is set exactly when that text is non-empty, whatever the
  number of lines; when the fetch failed, the flag is false, the text is empty and the
  error message is recorded in the entry.
\<close>

theorem log_entry_truncated_flag:
  assumes "Diagnose lib d now namespace name = Returns (Some result, err)"
    and "(container = ''alluxio-master'' \<and> lg_Master (Logs result) = Some entry) \<or>
         (container = ''alluxio-worker'' \<and> entry \<in> set (lg_Workers (Logs result))) \<or>
         (container = ''alluxio-fuse'' \<and> entry \<in> set (lg_Fuse (Logs result)))"
  shows
    "(\<forall>logs. GetPodLogs (client d) namespace (le_PodName entry) container (tailLines d) = (logs, None) \<longrightarrow>
        le_Logs entry = logs \<and> le_Truncated entry = (logs \<noteq> []) \<and> le_Error entry = []) \<and>
     (\<forall>logs e. GetPodLogs (client d) namespace (le_PodName entry) container (tailLines d) = (logs, Some e) \<longrightarrow>
        le_Error entry = e \<and> \<not> le_Truncated entry \<and> le_Logs entry = [])"
proof -
  let ?r0 = "zeroResult\<lparr>CollectedAt := now, DatasetName := name, Namespace := namespace\<rparr>"
  from assms(1) obtain r1 r3 r4 where
    s1: "collectCRSnapshots lib d namespace name ?r0 = (None, r1)" and
    s3: "collectResourceStatus d namespace name
       (r1\<lparr>Events := fst (GetAllRelatedEvents (client d) namespace name)\<rparr>) = Returns (None, r3)" and
    r4: "r4 = collectFuseLogs d namespace (collectWorkerLogs d namespace (collectMasterLogs d namespace r3))" and
    res: "result = (analyzeAndGenerateHints lib r4)
                \<lparr>HealthStatus := determineHealthStatus (analyzeAndGenerateHints lib r4)\<rparr>"
    by (rule Diagnose_Returns_Some)
  have "Logs r1 = Logs ?r0"
    using collectCRSnapshots_fields(3) [of lib d namespace name ?r0] by (simp add: s1)
  then have l3: "Logs r3 = Logs zeroResult"
    by (simp add: collectResourceStatus_Returns(3) [OF s3])
  have lr: "Logs result = Logs r4"
    by (simp add: res analyze_fields)
  from assms(2) consider
    (m) "container = ''alluxio-master''" "lg_Master (Logs result) = Some entry" |
    (w) "container = ''alluxio-worker''" "entry \<in> set (lg_Workers (Logs result))" |
    (f) "container = ''alluxio-fuse''" "entry \<in> set (lg_Fuse (Logs result))" by blast
  then show ?thesis
  proof cases
    case m
    have "lg_Master (Logs (collectMasterLogs d namespace r3)) = Some entry"
      using m(2) by (simp add: lr r4)
    moreover have "lg_Master (Logs r3) = None" by (simp add: l3 zeroResult_def)
    ultimately show ?thesis unfolding m(1) by (rule collectMasterLogs_entry)
  next
    case w
    have "entry \<in> set (lg_Workers (Logs (collectWorkerLogs d namespace (collectMasterLogs d namespace r3))))"
      using w(2) by (simp add: lr r4)
    moreover have "lg_Workers (Logs (collectMasterLogs d namespace r3)) = []"
      by (simp add: l3 zeroResult_def)
    ultimately obtain pod where "entry = fetchEntry d namespace pod ''alluxio-worker''"
      using collectWorkerLogs_entries by blast
    with fetchEntry_flag [of d namespace pod "''alluxio-worker''"] show ?thesis
      unfolding w(1) by simp
  next
    case f
    have "entry \<in> set (lg_Fuse (Logs r4))"
      using f(2) by (simp add: lr)
    moreover have "lg_Fuse (Logs (collectWorkerLogs d namespace (collectMasterLogs d namespace r3))) = []"
      by (simp add: l3 zeroResult_def)
    ultimately obtain pod where "entry = fetchEntry d namespace pod ''alluxio-fuse''"
      unfolding r4 using collectFuseLogs_entries by blast
    with fetchEntry_flag [of d namespace pod "''alluxio-fuse''"] show ?thesis
      unfolding f(1) by simp
  qed
qed

text \<open>
  On the mock cluster, with the tail limit at 100 lines: the master's three-line log is
  flagged truncated, the first worker's empty log is not, and the second worker's
  failed fetch leaves the flag false and the error in the entry.
\<close>

theorem log_entry_truncated_flag_witness:
  "tailLines mockDiagnoser = 100 \<and>
   map le_Truncated (lg_Workers (Logs mockResult)) = [False, False] \<and>
   map le_Error (lg_Workers (Logs mockResult)) =
     [[], ''failed to get log stream: container not running''] \<and>
   map_option (\<lambda>entry. length (Split (le_Logs entry) CHR 0x0A)) (lg_Master (Logs mockResult)) = Some 3 \<and>
   map_option le_Truncated (lg_Master (Logs mockResult)) = Some True"
proof -
  obtain entry where e: "lg_Master (Logs mockResult) = Some entry"
    "le_PodName entry = ''demo-master-0''"
    by (simp add: mockResult_def)
  have g: "GetPodLogs (client mockDiagnoser) ''default'' (le_PodName entry) ''alluxio-master''
             (tailLines mockDiagnoser) =
           (''started'' @ [CHR 0x0A] @ ''Password=abc'' @ [CHR 0x0A] @ ''serving'', None)"
    by (simp add: e GetPodLogs_def mockClient_def)
  from log_entry_truncated_flag [OF mock_run, of "''alluxio-master''" entry] e(1) g
  have "le_Logs entry = ''started'' @ [CHR 0x0A] @ ''Password=abc'' @ [CHR 0x0A] @ ''serving''"
    and "le_Truncated entry" by auto
  then have "length (Split (le_Logs entry) CHR 0x0A) = 3 \<and> le_Truncated entry" by simp
  moreover have "map le_Truncated (lg_Workers (Logs mockResult)) = [False, False]"
    "map le_Error (lg_Workers (Logs mockResult)) =
     [[], ''failed to get log stream: container not running'']"
    by (simp_all add: mockResult_def)
  ultimately show ?thesis using e(1) by simp
qed

section \<open>The hints of the analysis\<close>

lemma digit_in_digits: "d < 10 \<Longrightarrow> digit d \<in> set ''0123456789''"
  unfolding digit_def by (rule nth_mem) simp

lemma showNat_digits: "set (showNat n) \<subseteq> set ''0123456789''"
proof (induction n rule: showNat.induct)
  case (1 n)
  show ?case
  proof (cases "n < 10")
    case True
    then show ?thesis
      using digit_in_digits [of n] by (subst showNat.simps) simp
  next
    case False
    have "n mod 10 < 10" by simp
    then have "digit (n mod 10) \<in> set ''0123456789''" by (rule digit_in_digits)
    with 1 False show ?thesis by (subst showNat.simps) simp
  qed
qed

lemma showInt32_no_paren: "CHR '')'' \<notin> set (showInt32 w)"
proof -
  have "CHR '')'' \<notin> set (showNat n)" for n
    using showNat_digits [of n] by auto
  then show ?thesis by (simp add: showInt32_def showInt_def)
qed

lemma cut_at_first:
  "c \<notin> set a \<Longrightarrow> c \<notin> set b \<Longrightarrow> a @ c # x = b @ c # y \<Longrightarrow> a = b \<and> x = y"
proof (induction a arbitrary: b)
  case Nil
  then show ?case by (cases b) auto
next
  case (Cons u a)
  then show ?case by (cases b) auto
qed

lemma restartIssue_name:
  assumes "restartIssue q = restartIssue p"
  shows "ps_Name q = ps_Name p"
proof -
  from assms have
    "showInt32 (ps_RestartCount q) @ CHR '')'' # ('' for pod '' @ ps_Name q) =
     showInt32 (ps_RestartCount p) @ CHR '')'' # ('' for pod '' @ ps_Name p)"
    by (simp add: restartIssue_def)
  from cut_at_first [OF showInt32_no_paren showInt32_no_paren this]
  show ?thesis by simp
qed

lemma restartIssue_hd: "hd (restartIssue p) = CHR ''H''"
  by (simp add: restartIssue_def)

lemma checkRestartCounts_hints:
  "FailureHints (checkRestartCounts r pods c) =
     FailureHints r @
     map (\<lambda>pod. \<lparr>Severity = ''warning'', Component = c, Issue = restartIssue pod,
                  Suggestion = ''Check pod logs for crash reasons'', Evidence = []\<rparr>)
         (filter (\<lambda>pod. 3 <s ps_RestartCount pod) pods)"
  by (induction pods arbitrary: r) simp_all

lemma checkGroupRestarts_issues:
  "map Issue (FailureHints (checkGroupRestarts r g c)) =
     map Issue (FailureHints r) @
     map restartIssue (filter (\<lambda>pod. 3 <s ps_RestartCount pod)
       (case g of None \<Rightarrow> [] | Some x \<Rightarrow> pg_Pods x @ pg_FailingPods x))"
  by (cases g) (simp_all add: checkGroupRestarts_def checkRestartCounts_hints comp_def)

lemma analyzeEvents_issues:
  "\<exists>X. FailureHints (analyzeEvents r es) = FailureHints r @ X \<and>
       (\<forall>h \<in> set X. hd (Issue h) \<noteq> CHR ''H'')"
proof (induction es arbitrary: r)
  case Nil
  show ?case by simp
next
  case (Cons e es)
  show ?case
  proof (cases "ev_Type e = ''Warning''")
    case True
    have "\<exists>Y. FailureHints (analyzeWarningEvent r e) = FailureHints r @ Y \<and>
            (\<forall>h \<in> set Y. hd (Issue h) \<noteq> CHR ''H'')"
      by (simp add: analyzeWarningEvent_def Let_def)
    then obtain Y where Y: "FailureHints (analyzeWarningEvent r e) = FailureHints r @ Y"
      "\<forall>h \<in> set Y. hd (Issue h) \<noteq> CHR ''H''" by blast
    from Cons.IH [of "analyzeWarningEvent r e"] obtain X where
      X: "FailureHints (analyzeEvents (analyzeWarningEvent r e) es) =
            FailureHints (analyzeWarningEvent r e) @ X"
      "\<forall>h \<in> set X. hd (Issue h) \<noteq> CHR ''H''" by blast
    have "FailureHints (analyzeEvents r (e # es)) = FailureHints r @ (Y @ X)"
      using True X(1) Y(1) by simp
    moreover have "\<forall>h \<in> set (Y @ X). hd (Issue h) \<noteq> CHR ''H''"
      using X(2) Y(2) by auto
    ultimately show ?thesis by blast
  next
    case False
    with Cons.IH [of r] show ?thesis by simp
  qed
qed

lemma status_checks_issues:
  "\<exists>X. FailureHints (checkPVCStatus (checkFuseStatus (checkWorkerStatus
          (checkMasterStatus (checkDatasetPhase lib r))))) = FailureHints r @ X \<and>
       (\<forall>h \<in> set X. hd (Issue h) \<noteq> CHR ''H'')"
proof -
  have 1: "\<exists>X. FailureHints (checkDatasetPhase lib r) = FailureHints r @ X \<and>
       (\<forall>h \<in> set X. hd (Issue h) \<noteq> CHR ''H'')" for r
    by (simp add: checkDatasetPhase_def Let_def)
  have 2: "\<exists>X. FailureHints (checkMasterStatus r) = FailureHints r @ X \<and>
       (\<forall>h \<in> set X. hd (Issue h) \<noteq> CHR ''H'')" for r
    by (simp add: checkMasterStatus_def split: option.splits)
  have 3: "\<exists>X. FailureHints (checkWorkerStatus r) = FailureHints r @ X \<and>
       (\<forall>h \<in> set X. hd (Issue h) \<noteq> CHR ''H'')" for r
    by (simp add: checkWorkerStatus_def split: option.splits)
  have 4: "\<exists>X. FailureHints (checkFuseStatus r) = FailureHints r @ X \<and>
       (\<forall>h \<in> set X. hd (Issue h) \<noteq> CHR ''H'')" for r
    by (simp add: checkFuseStatus_def split: option.splits)
  have 5: "\<exists>X. FailureHints (checkPVCStatus r) = FailureHints r @ X \<and>
       (\<forall>h \<in> set X. hd (Issue h) \<noteq> CHR ''H'')" for r
    by (simp add: checkPVCStatus_def split: option.splits)
  let ?r1 = "checkDatasetPhase lib r"
  let ?r2 = "checkMasterStatus ?r1"
  let ?r3 = "checkWorkerStatus ?r2"
  let ?r4 = "checkFuseStatus ?r3"
  from 1 [of r] obtain X1 where X1: "FailureHints ?r1 = FailureHints r @ X1"
    "\<forall>h \<in> set X1. hd (Issue h) \<noteq> CHR ''H''" by blast
  from 2 [of ?r1] obtain X2 where X2: "FailureHints ?r2 = FailureHints ?r1 @ X2"
    "\<forall>h \<in> set X2. hd (Issue h) \<noteq> CHR ''H''" by blast
  from 3 [of ?r2] obtain X3 where X3: "FailureHints ?r3 = FailureHints ?r2 @ X3"
    "\<forall>h \<in> set X3. hd (Issue h) \<noteq> CHR ''H''" by blast
  from 4 [of ?r3] obtain X4 where X4: "FailureHints ?r4 = FailureHints ?r3 @ X4"
    "\<forall>h \<in> set X4. hd (Issue h) \<noteq> CHR ''H''" by blast
  from 5 [of ?r4] obtain X5 where X5: "FailureHints (checkPVCStatus ?r4) = FailureHints ?r4 @ X5"
    "\<forall>h \<in> set X5. hd (Issue h) \<noteq> CHR ''H''" by blast
  have "FailureHints (checkPVCStatus ?r4) = FailureHints r @ (X1 @ X2 @ X3 @ X4 @ X5)"
    by (simp add: X1(1) X2(1) X3(1) X4(1) X5(1))
  moreover have "\<forall>h \<in> set (X1 @ X2 @ X3 @ X4 @ X5). hd (Issue h) \<noteq> CHR ''H''"
    using X1(2) X2(2) X3(2) X4(2) X5(2) by auto
  ultimately show ?thesis by blast
qed

lemma status_checks_fields:
  "Events (checkPVCStatus (checkFuseStatus (checkWorkerStatus
          (checkMasterStatus (checkDatasetPhase lib r))))) = Events r"
  "Resources (checkPVCStatus (checkFuseStatus (checkWorkerStatus
          (checkMasterStatus (checkDatasetPhase lib r))))) = Resources r"
proof -
  note f1 = checkDatasetPhase_frame [of lib r]
  note f2 = frame_trans [OF f1 checkMasterStatus_frame]
  note f3 = frame_trans [OF f2 checkWorkerStatus_frame]
  note f4 = frame_trans [OF f3 checkFuseStatus_frame]
  note f5 = frame_trans [OF f4 checkPVCStatus_frame]
  show "Events (checkPVCStatus (checkFuseStatus (checkWorkerStatus
          (checkMasterStatus (checkDatasetPhase lib r))))) = Events r"
    by (subst f5) simp
  show "Resources (checkPVCStatus (checkFuseStatus (checkWorkerStatus
          (checkMasterStatus (checkDatasetPhase lib r))))) = Resources r"
    by (subst f5) simp
qed

text \<open>
  All that the analysis appends: hints whose issue does not start like a restart
  issue, then one restart hint for every pod above the threshold, group by group.
\<close>

lemma analyzeAndGenerateHints_issues:
  "\<exists>X. map Issue (FailureHints (analyzeAndGenerateHints lib r)) =
         map Issue (FailureHints r) @ X @
         map restartIssue (filter (\<lambda>pod. 3 <s ps_RestartCount pod)
           ((case Master (Resources r) of None \<Rightarrow> [] | Some x \<Rightarrow> pg_Pods x @ pg_FailingPods x) @
            (case Workers (Resources r) of None \<Rightarrow> [] | Some x \<Rightarrow> pg_Pods x @ pg_FailingPods x) @
            (case Fuse (Resources r) of None \<Rightarrow> [] | Some x \<Rightarrow> pg_Pods x @ pg_FailingPods x))) \<and>
       (\<forall>i \<in> set X. hd i \<noteq> CHR ''H'')"
proof -
  let ?r5 = "checkPVCStatus (checkFuseStatus (checkWorkerStatus
          (checkMasterStatus (checkDatasetPhase lib r))))"
  let ?r6 = "analyzeEvents ?r5 (Events ?r5)"
  let ?r7 = "checkGroupRestarts ?r6 (Master (Resources r)) ''master''"
  let ?r8 = "checkGroupRestarts ?r7 (Workers (Resources r)) ''worker''"
  let ?r9 = "checkGroupRestarts ?r8 (Fuse (Resources r)) ''fuse''"
  have res6: "Resources ?r6 = Resources r"
    by (subst analyzeEvents_frame) (simp add: status_checks_fields)
  have res7: "Resources ?r7 = Resources r"
    by (subst checkGroupRestarts_frame) (simp add: res6)
  have res8: "Resources ?r8 = Resources r"
    by (subst checkGroupRestarts_frame) (simp add: res7)
  have a: "analyzeAndGenerateHints lib r = ?r9"
    by (simp add: analyzeAndGenerateHints_def Let_def res6 res7 res8)
  from status_checks_issues [of lib r] obtain X1 where
    X1: "FailureHints ?r5 = FailureHints r @ X1" "\<forall>h \<in> set X1. hd (Issue h) \<noteq> CHR ''H''"
    by blast
  from analyzeEvents_issues [of ?r5 "Events ?r5"] obtain X2 where
    X2: "FailureHints ?r6 = FailureHints ?r5 @ X2" "\<forall>h \<in> set X2. hd (Issue h) \<noteq> CHR ''H''"
    by blast
  have "map Issue (FailureHints ?r9) =
         map Issue (FailureHints r) @ map Issue (X1 @ X2) @
         map restartIssue (filter (\<lambda>pod. 3 <s ps_RestartCount pod)
           ((case Master (Resources r) of None \<Rightarrow> [] | Some x \<Rightarrow> pg_Pods x @ pg_FailingPods x) @
            (case Workers (Resources r) of None \<Rightarrow> [] | Some x \<Rightarrow> pg_Pods x @ pg_FailingPods x) @
            (case Fuse (Resources r) of None \<Rightarrow> [] | Some x \<Rightarrow> pg_Pods x @ pg_FailingPods x)))"
    by (simp only: checkGroupRestarts_issues X1(1) X2(1) map_append
        filter_append append_assoc)
  moreover have "\<forall>i \<in> set (map Issue (X1 @ X2)). hd i \<noteq> CHR ''H''"
    using X1(2) X2(2) by auto
  ultimately show ?thesis unfolding a by blast
qed

section \<open>Failures of the stages\<close>









lemma filter_eq_singleton:
  assumes "distinct (map f xs)" and "p \<in> set xs"
  shows "filter (\<lambda>q. f q = f p) xs = [p]"
  using assms
proof (induction xs)
  case Nil
  then show ?case by simp
next
  case (Cons x xs)
  show ?case
  proof (cases "x = p")
    case True
    with Cons.prems have "f p \<notin> f ` set xs" by simp
    then have "\<forall>q \<in> set xs. f q \<noteq> f p" by (metis image_eqI)
    then have "filter (\<lambda>q. f q = f p) xs = []"
      by (simp add: filter_empty_conv)
    with True show ?thesis by simp
  next
    case False
    with Cons.prems have p: "p \<in> set xs" and "f x \<notin> f ` set xs" by auto
    then have "f x \<noteq> f p" by auto
    with Cons.IH p Cons.prems show ?thesis by simp
  qed
qed

text \<open>
  Claim C9. Among the hints the analysis appends, the number of hints whose issue is
  the restart issue of a pod, which cites the pod's name and restart count, is one
  when the pod's restart count is greater than 3 and zero otherwise; this holds for
  every pod of the healthy and failing lists of the three groups, pods being told apart
  by their names.
\<close>

theorem restart_hint_per_pod:
  assumes "pods =
      (case Master (Resources r) of None \<Rightarrow> [] | Some g \<Rightarrow> pg_Pods g @ pg_FailingPods g) @
      (case Workers (Resources r) of None \<Rightarrow> [] | Some g \<Rightarrow> pg_Pods g @ pg_FailingPods g) @
      (case Fuse (Resources r) of None \<Rightarrow> [] | Some g \<Rightarrow> pg_Pods g @ pg_FailingPods g)"
    and "distinct (map ps_Name pods)"
    and "pod \<in> set pods"
  shows "length (filter (\<lambda>h. Issue h = restartIssue pod)
           (drop (length (FailureHints r)) (FailureHints (analyzeAndGenerateHints lib r)))) =
         (if 3 <s ps_RestartCount pod then 1 else 0) \<and>
         restartIssue pod =
           ''High restart count ('' @ showInt32 (ps_RestartCount pod) @ '') for pod '' @ ps_Name pod"
proof -
  let ?E = "drop (length (FailureHints r)) (FailureHints (analyzeAndGenerateHints lib r))"
  let ?high = "\<lambda>pod. 3 <s ps_RestartCount pod"
  from analyzeAndGenerateHints_issues [of lib r] obtain X where
    X: "map Issue (FailureHints (analyzeAndGenerateHints lib r)) =
          map Issue (FailureHints r) @ X @ map restartIssue (filter ?high pods)"
    and XH: "\<forall>i \<in> set X. hd i \<noteq> CHR ''H''"
    unfolding assms(1) by blast
  have "map Issue ?E = drop (length (map Issue (FailureHints r)))
          (map Issue (FailureHints (analyzeAndGenerateHints lib r)))"
    by (simp add: drop_map)
  also have "\<dots> = X @ map restartIssue (filter ?high pods)"
    unfolding X by simp
  finally have E: "map Issue ?E = X @ map restartIssue (filter ?high pods)" .
  have "length (filter (\<lambda>h. Issue h = restartIssue pod) ?E) =
        length (filter (\<lambda>i. i = restartIssue pod) (map Issue ?E))"
    by (simp add: filter_map comp_def)
  also have "\<dots> = length (filter (\<lambda>i. i = restartIssue pod) X) +
                  length (filter (\<lambda>q. restartIssue q = restartIssue pod) (filter ?high pods))"
    unfolding E by (simp add: filter_map comp_def)
  also have "filter (\<lambda>i. i = restartIssue pod) X = []"
    using XH restartIssue_hd [of pod] by (auto simp: filter_empty_conv)
  also have "filter (\<lambda>q. restartIssue q = restartIssue pod) (filter ?high pods) =
             filter ?high (filter (\<lambda>q. restartIssue q = restartIssue pod) pods)"
    by (simp add: conj_commute)
  also have "filter (\<lambda>q. restartIssue q = restartIssue pod) pods =
             filter (\<lambda>q. ps_Name q = ps_Name pod) pods"
  proof (rule filter_cong [OF refl])
    fix q assume q: "q \<in> set pods"
    show "(restartIssue q = restartIssue pod) = (ps_Name q = ps_Name pod)"
    proof
      assume "restartIssue q = restartIssue pod"
      then show "ps_Name q = ps_Name pod" by (rule restartIssue_name)
    next
      assume "ps_Name q = ps_Name pod"
      with assms(2) q assms(3) have "q = pod"
        by (meson distinct_map inj_onD)
      then show "restartIssue q = restartIssue pod" by simp
    qed
  qed
  also have "\<dots> = [pod]"
    using assms(2,3) by (rule filter_eq_singleton)
  finally have "length (filter (\<lambda>h. Issue h = restartIssue pod) ?E) =
                (if 3 <s ps_RestartCount pod then 1 else 0)"
    by simp
  then show ?thesis by (simp add: restartIssue_def)
qed

text \<open>
  On the result of the mock run: the failing worker with 5 restarts gets one hint
  citing its name and the count 5, the healthy worker with 2 restarts gets none.
\<close>

theorem restart_hint_per_pod_witness:
  "length (filter (\<lambda>h. Issue h = ''High restart count (5) for pod demo-worker-1'')
     (drop (length (FailureHints mockResult))
        (FailureHints (analyzeAndGenerateHints mockLib mockResult)))) = 1 \<and>
   length (filter (\<lambda>h. Issue h = ''High restart count (2) for pod demo-worker-0'')
     (drop (length (FailureHints mockResult))
        (FailureHints (analyzeAndGenerateHints mockLib mockResult)))) = 0"
proof -
  let ?pods = "[mockStatus ''demo-master-0'' True 0, mockStatus ''demo-worker-0'' True 2,
                mockStatus ''demo-worker-1'' False 5]"
  have pods: "?pods =
      (case Master (Resources mockResult) of None \<Rightarrow> [] | Some g \<Rightarrow> pg_Pods g @ pg_FailingPods g) @
      (case Workers (Resources mockResult) of None \<Rightarrow> [] | Some g \<Rightarrow> pg_Pods g @ pg_FailingPods g) @
      (case Fuse (Resources mockResult) of None \<Rightarrow> [] | Some g \<Rightarrow> pg_Pods g @ pg_FailingPods g)"
    by (simp add: mockResult_def)
  have d: "distinct (map ps_Name ?pods)"
    by (simp add: mockStatus_def)
  have i5: "restartIssue (mockStatus ''demo-worker-1'' False 5) =
              ''High restart count (5) for pod demo-worker-1''"
    and i2: "restartIssue (mockStatus ''demo-worker-0'' True 2) =
              ''High restart count (2) for pod demo-worker-0''"
    by (simp_all add: restartIssue_def mockStatus_def showInt32_small)
  have h5: "3 <s ps_RestartCount (mockStatus ''demo-worker-1'' False 5)"
    and h2: "\<not> 3 <s ps_RestartCount (mockStatus ''demo-worker-0'' True 2)"
    by (simp_all add: mockStatus_def word_sless_alt)
  have "length (filter (\<lambda>h. Issue h = restartIssue (mockStatus ''demo-worker-1'' False 5))
     (drop (length (FailureHints mockResult))
        (FailureHints (analyzeAndGenerateHints mockLib mockResult)))) =
     (if 3 <s ps_RestartCount (mockStatus ''demo-worker-1'' False 5) then 1 else 0)"
    by (rule restart_hint_per_pod [OF pods d, THEN conjunct1]) simp
  with h5 have 1: "length (filter (\<lambda>h. Issue h = restartIssue (mockStatus ''demo-worker-1'' False 5))
     (drop (length (FailureHints mockResult))
        (FailureHints (analyzeAndGenerateHints mockLib mockResult)))) = 1"
    by (simp only: if_True)
  have "length (filter (\<lambda>h. Issue h = restartIssue (mockStatus ''demo-worker-0'' True 2))
     (drop (length (FailureHints mockResult))
        (FailureHints (analyzeAndGenerateHints mockLib mockResult)))) =
     (if 3 <s ps_RestartCount (mockStatus ''demo-worker-0'' True 2) then 1 else 0)"
    by (rule restart_hint_per_pod [OF pods d, THEN conjunct1]) simp
  with h2 have 2: "length (filter (\<lambda>h. Issue h = restartIssue (mockStatus ''demo-worker-0'' True 2))
     (drop (length (FailureHints mockResult))
        (FailureHints (analyzeAndGenerateHints mockLib mockResult)))) = 0"
    by (simp only: if_False)
  from 1 2 show ?thesis unfolding i5 i2 by (rule conjI)
qed

section \<open>Normalizing twice\<close>

lemma normalizeLogs_lines:
  "normalizeLogs lib logs =
     Join (map (\<lambda>line. if looksSecret (ToLower lib line) then ''[REDACTED]'' else line)
               (Split logs CHR 0x0A)) [CHR 0x0A]"
  "Split (normalizeLogs lib logs) CHR 0x0A =
     map (\<lambda>line. if looksSecret (ToLower lib line) then ''[REDACTED]'' else line)
         (Split logs CHR 0x0A)"
proof -
  let ?f = "\<lambda>line. if looksSecret (ToLower lib line) then ''[REDACTED]'' else line"
  let ?ls = "map ?f (Split logs CHR 0x0A)"
  show n: "normalizeLogs lib logs = Join ?ls [CHR 0x0A]"
    by (simp add: normalizeLogs_def cleanLines_map)
  have "?ls \<noteq> []" by (simp add: Split_not_Nil)
  moreover have "\<forall>l \<in> set ?ls. CHR 0x0A \<notin> set l"
    by (auto dest: Split_no_sep)
  ultimately have "Split (Join ?ls [CHR 0x0A]) CHR 0x0A = ?ls"
    by (rule Split_Join)
  with n show "Split (normalizeLogs lib logs) CHR 0x0A = ?ls" by simp
qed

lemma normalizeLogs_idem:
  assumes "ToLower lib ''[REDACTED]'' = ''[redacted]''"
  shows "normalizeLogs lib (normalizeLogs lib logs) = normalizeLogs lib logs"
proof -
  let ?f = "\<lambda>line. if looksSecret (ToLower lib line) then ''[REDACTED]'' else line"
  have marker: "\<not> looksSecret (ToLower lib ''[REDACTED]'')"
    unfolding assms by (simp add: looksSecret_def)
  have ff: "?f (?f line) = ?f line" for line
    using marker by simp
  have "normalizeLogs lib (normalizeLogs lib logs) =
          Join (map ?f (Split (normalizeLogs lib logs) CHR 0x0A)) [CHR 0x0A]"
    by (rule normalizeLogs_lines(1))
  also have "Split (normalizeLogs lib logs) CHR 0x0A = map ?f (Split logs CHR 0x0A)"
    by (rule normalizeLogs_lines(2))
  also have "map ?f (map ?f (Split logs CHR 0x0A)) = map ?f (Split logs CHR 0x0A)"
    using ff by (simp add: comp_def)
  also have "Join (map ?f (Split logs CHR 0x0A)) [CHR 0x0A] = normalizeLogs lib logs"
    by (rule normalizeLogs_lines(1) [symmetric])
  finally show ?thesis .
qed

lemma normalizeEntries_values:
  assumes "normalizeEntries lib pre i entries m k = Some v"
  shows "m k = Some v \<or> (\<exists>entry \<in> set entries. v = normalizeLogs lib (le_Logs entry))"
  using assms
proof (induction lib pre i entries m rule: normalizeEntries.induct)
  case (1 lib pre i logs)
  then show ?case by simp
next
  case (2 lib pre i entry entries logs)
  show ?case
  proof (cases "le_Logs entry \<noteq> []")
    case True
    from "2.prems" True have
      p: "normalizeEntries lib pre (i + 1) entries
            (logs(pre @ showInt (int i) \<mapsto> normalizeLogs lib (le_Logs entry))) k = Some v"
      by simp
    from "2.IH"(1) [OF True p]
    have "(logs(pre @ showInt (int i) \<mapsto> normalizeLogs lib (le_Logs entry))) k = Some v \<or>
      (\<exists>e \<in> set entries. v = normalizeLogs lib (le_Logs e))" .
    then show ?thesis by (auto split: if_splits)
  next
    case False
    from "2.prems" False have
      p: "normalizeEntries lib pre (i + 1) entries logs k = Some v"
      by simp
    from "2.IH"(2) [OF _ p] False show ?thesis by auto
  qed
qed

lemma ToContext_log_values:
  assumes "ctx_Logs (ToContext lib result) k = Some v"
  shows "\<exists>s. v = normalizeLogs lib s"
proof -
  let ?m0 = "case lg_Master (Logs result) of
               None \<Rightarrow> Map.empty
             | Some entry \<Rightarrow>
                 if le_Logs entry \<noteq> []
                 then [''master'' \<mapsto> normalizeLogs lib (le_Logs entry)]
                 else Map.empty"
  let ?m1 = "normalizeEntries lib ''worker-'' 0 (lg_Workers (Logs result)) ?m0"
  have "ctx_Logs (ToContext lib result) =
          normalizeEntries lib ''fuse-'' 0 (lg_Fuse (Logs result)) ?m1"
    by (simp add: ToContext_def Let_def)
  with assms have "?m1 k = Some v \<or> (\<exists>s. v = normalizeLogs lib s)"
    using normalizeEntries_values [of lib "''fuse-''" 0 "lg_Fuse (Logs result)" ?m1 k v] by auto
  moreover have "\<exists>s. v = normalizeLogs lib s" if "?m1 k = Some v"
  proof -
    from normalizeEntries_values [OF that]
    have "?m0 k = Some v \<or> (\<exists>s. v = normalizeLogs lib s)" by auto
    then show ?thesis by (auto split: option.splits if_splits)
  qed
  ultimately show ?thesis by blast
qed

text \<open>
  Claim C6. \<open>ToContext\<close> and \<open>normalizeLogs\<close> are functions of their arguments alone
  (the result and the library's \<open>ToLower\<close>), reading no clock and no other state.
  Normalizing a log text that is already normalized leaves it unchanged, and every log
  text in the context that \<open>ToContext\<close> builds is such a fixed point; this rests on
  the marker \<open>[REDACTED]\<close> lower-casing to \<open>[redacted]\<close>, which holds no token.
\<close>

theorem normalization_idempotent:
  assumes "ToLower lib ''[REDACTED]'' = ''[redacted]''"
  shows "normalizeLogs lib (normalizeLogs lib logs) = normalizeLogs lib logs \<and>
         (ctx_Logs (ToContext lib result) k = Some v \<longrightarrow> normalizeLogs lib v = v) \<and>
         ctx_DatasetYAML (ToContext lib result) = DatasetYAML result \<and>
         ctx_RuntimeYAML (ToContext lib result) = RuntimeYAML result \<and>
         ctx_Events (ToContext lib result) = Events result \<and>
         ctx_FailureHints (ToContext lib result) = FailureHints result \<and>
         ctx_CollectedAt (ToContext lib result) = CollectedAt result \<and>
         ctx_Version (ToContext lib result) = ''1.0''"
proof -
  have "normalizeLogs lib v = v" if "ctx_Logs (ToContext lib result) k = Some v"
  proof -
    from ToContext_log_values [OF that] obtain s where "v = normalizeLogs lib s" ..
    then show ?thesis by (simp add: normalizeLogs_idem [OF assms])
  qed
  then show ?thesis
    by (simp add: normalizeLogs_idem [OF assms] ToContext_def Let_def)
qed

text \<open>On the master log of the mock run, whose second line holds a password.\<close>

theorem normalization_idempotent_witness:
  "ToLower mockLib ''[REDACTED]'' = ''[redacted]'' \<and>
   normalizeLogs mockLib (''started'' @ [CHR 0x0A] @ ''Password=abc'' @ [CHR 0x0A] @ ''serving'') =
     ''started'' @ [CHR 0x0A] @ ''[REDACTED]'' @ [CHR 0x0A] @ ''serving'' \<and>
   normalizeLogs mockLib (''started'' @ [CHR 0x0A] @ ''[REDACTED]'' @ [CHR 0x0A] @ ''serving'') =
     ''started'' @ [CHR 0x0A] @ ''[REDACTED]'' @ [CHR 0x0A] @ ''serving''"
proof -
  have l: "ToLower mockLib ''[REDACTED]'' = ''[redacted]''"
    by (simp add: mockLib_def asciiToLower_def)
  have n: "normalizeLogs mockLib (''started'' @ [CHR 0x0A] @ ''Password=abc'' @ [CHR 0x0A] @ ''serving'') =
     ''started'' @ [CHR 0x0A] @ ''[REDACTED]'' @ [CHR 0x0A] @ ''serving''"
    by (simp add: normalizeLogs_def looksSecret_def mockLib_def asciiToLower_def)
  from normalization_idempotent [OF l, of "''started'' @ [CHR 0x0A] @ ''Password=abc'' @ [CHR 0x0A] @ ''serving''"]
  have "normalizeLogs mockLib (normalizeLogs mockLib
          (''started'' @ [CHR 0x0A] @ ''Password=abc'' @ [CHR 0x0A] @ ''serving'')) =
        normalizeLogs mockLib (''started'' @ [CHR 0x0A] @ ''Password=abc'' @ [CHR 0x0A] @ ''serving'')"
    by (rule conjunct1)
  then have "normalizeLogs mockLib (''started'' @ [CHR 0x0A] @ ''[REDACTED]'' @ [CHR 0x0A] @ ''serving'') =
     ''started'' @ [CHR 0x0A] @ ''[REDACTED]'' @ [CHR 0x0A] @ ''serving''"
    unfolding n .
  with l n show ?thesis by (intro conjI)
qed

end
